theory Spec2Isabelle
  imports Main "HOL-Library.Word"
begin

unbundle bit_operations_syntax

section \<open>The Marvell Bluetooth vendor library: hardware\_mrvl.c\<close>

text \<open>
  The file drives two command chains over the host stack's command/event transport: the
  firmware configuration (one command, write-device-address) and the SCO/PCM
  configuration (four commands). Each chain is started by an entry point and continued
  by a completion callback that the transport invokes with the event buffer.

  The embedding is a state-passing one. The state holds the globals of the C file, the
  buffers that live on the heap, the state of the host stack behind the callback table,
  and a log of every call made through the callback table. A function that the C code
  cannot survive (a failed \<open>assert\<close>, a read through a pointer that is not a buffer
  or past the end of one) returns a fault in place of a state.
\<close>

subsection \<open>Constants and macros\<close>

type_synonym u8 = "8 word"
type_synonym u16 = "16 word"
type_synonym addr = nat

definition HCI_CMD_MARVELL_WRITE_PCM_SETTINGS :: u16 where
  "HCI_CMD_MARVELL_WRITE_PCM_SETTINGS = 0xFC07"

definition HCI_CMD_MARVELL_WRITE_PCM_SYNC_SETTINGS :: u16 where
  "HCI_CMD_MARVELL_WRITE_PCM_SYNC_SETTINGS = 0xFC28"

definition HCI_CMD_MARVELL_WRITE_PCM_LINK_SETTINGS :: u16 where
  "HCI_CMD_MARVELL_WRITE_PCM_LINK_SETTINGS = 0xFC29"

definition HCI_CMD_MARVELL_SET_SCO_DATA_PATH :: u16 where
  "HCI_CMD_MARVELL_SET_SCO_DATA_PATH = 0xFC1D"

definition HCI_CMD_MARVELL_WRITE_BD_ADDRESS :: u16 where
  "HCI_CMD_MARVELL_WRITE_BD_ADDRESS = 0xFC22"

definition WRITE_PCM_SETTINGS_SIZE :: u8 where
  "WRITE_PCM_SETTINGS_SIZE = 1"

definition WRITE_PCM_SYNC_SETTINGS_SIZE :: u8 where
  "WRITE_PCM_SYNC_SETTINGS_SIZE = 3"

definition WRITE_PCM_LINK_SETTINGS_SIZE :: u8 where
  "WRITE_PCM_LINK_SETTINGS_SIZE = 2"

definition SET_SCO_DATA_PATH_SIZE :: u8 where
  "SET_SCO_DATA_PATH_SIZE = 1"

definition WRITE_BD_ADDRESS_SIZE :: u8 where
  "WRITE_BD_ADDRESS_SIZE = 8"

definition HCI_CMD_PREAMBLE_SIZE :: u16 where
  "HCI_CMD_PREAMBLE_SIZE = 3"

definition HCI_EVT_CMD_CMPL_OPCODE :: nat where
  "HCI_EVT_CMD_CMPL_OPCODE = 3"

datatype fault = AssertFailed | BadPointer

text \<open>
  \<open>STREAM_TO_UINT16(u16, p)\<close>: reads two bytes at position \<open>p\<close> of a byte area, low
  byte first, and advances \<open>p\<close> by two. The sum is taken in \<open>int\<close> in C and stored
  into a \<open>uint16_t\<close>; it never exceeds 0xFFFF.
\<close>

definition STREAM_TO_UINT16 :: "u8 list \<Rightarrow> nat \<Rightarrow> fault + (u16 \<times> nat)" where
  "STREAM_TO_UINT16 bs p =
     (if p + 1 < length bs
      then Inr ((ucast (bs ! p) :: u16) + push_bit 8 (ucast (bs ! (p + 1)) :: u16), p + 2)
      else Inl BadPointer)"

text \<open>\<open>UINT16_TO_STREAM(p, u16)\<close>: the two bytes written, low byte first.\<close>

definition UINT16_TO_STREAM :: "u16 \<Rightarrow> u8 list" where
  "UINT16_TO_STREAM v = [ucast v, ucast (drop_bit 8 v)]"

subsection \<open>Data\<close>

record bt_evt_param_t =
  cmd :: u16
  cmd_ret_param :: u8

text \<open>
  A buffer of the host stack: the four header fields of \<open>HC_BT_HDR\<close> and, in
  \<open>body\<close>, the bytes that follow the header in memory, \<open>(uint8_t *) (p_buf + 1)\<close>.
\<close>

record HC_BT_HDR =
  event :: u16
  len :: u16
  offset :: u16
  layer_specific :: u16
  body :: "u8 list"

datatype bt_vendor_op_result_t = BT_VND_OP_RESULT_SUCCESS | BT_VND_OP_RESULT_FAIL

text \<open>The two completion callbacks of this file, as they are handed to \<open>xmit_cb\<close>.\<close>

datatype tINT_CMD_CBACK = Hw_mrvl_config_start_cb | Hw_mrvl_sco_config_cb

text \<open>
  One entry of the log: a call through the callback table, with its arguments and what
  it returned. \<open>Xmit\<close> keeps the buffer as it was when it was handed over.
\<close>

datatype call =
    Alloc nat "addr option"
  | Dealloc addr
  | Xmit u16 addr HC_BT_HDR tINT_CMD_CBACK bool
  | Fwcfg bt_vendor_op_result_t
  | Scocfg bt_vendor_op_result_t

text \<open>
  The callback table \<open>bt_vendor_callbacks_t\<close> of the host stack (the fields this file
  uses). The functions belong to the host: each one reads and updates a host state
  \<open>'h\<close> of which nothing is known here. They do not touch the globals of this file.
\<close>

record 'h bt_vendor_callbacks_t =
  alloc :: "nat \<Rightarrow> 'h \<Rightarrow> addr option \<times> 'h"
  dealloc :: "addr \<Rightarrow> 'h \<Rightarrow> 'h"
  xmit_cb :: "u16 \<Rightarrow> addr \<Rightarrow> HC_BT_HDR \<Rightarrow> tINT_CMD_CBACK \<Rightarrow> 'h \<Rightarrow> bool \<times> 'h"
  fwcfg_cb :: "bt_vendor_op_result_t \<Rightarrow> 'h \<Rightarrow> 'h"
  scocfg_cb :: "bt_vendor_op_result_t \<Rightarrow> 'h \<Rightarrow> 'h"

text \<open>
  The state. \<open>bt_vendor_cbacks\<close> is \<open>None\<close> for the null pointer. The command
  templates are the file's static arrays. \<open>BT_HC_HDR_SIZE\<close> and
  \<open>MSG_STACK_TO_HC_HCI_CMD\<close> are macros of the host stack's header
  \<open>bt_hci_bdroid.h\<close>, which is not part of this library: they are kept as parameters
  of the state, and no function changes them.
\<close>

record 'h world =
  bt_vendor_cbacks :: "'h bt_vendor_callbacks_t option"
  vnd_local_bd_addr :: "u8 list"
  write_pcm_settings :: "u8 list"
  write_pcm_sync_settings :: "u8 list"
  write_pcm_link_settings :: "u8 list"
  set_sco_data_path :: "u8 list"
  write_bd_address :: "u8 list"
  BT_HC_HDR_SIZE :: nat
  MSG_STACK_TO_HC_HCI_CMD :: u16
  heap :: "addr \<Rightarrow> HC_BT_HDR option"
  host :: 'h
  trace :: "call list"

subsection \<open>Calls through the callback table\<close>

definition call_alloc ::
  "'h bt_vendor_callbacks_t \<Rightarrow> nat \<Rightarrow> 'h world \<Rightarrow> addr option \<times> 'h world" where
  "call_alloc cb n w =
     (case alloc cb n (host w) of
        (r, h) \<Rightarrow> (r, w\<lparr>host := h, trace := trace w @ [Alloc n r]\<rparr>))"

definition call_dealloc :: "'h bt_vendor_callbacks_t \<Rightarrow> addr \<Rightarrow> 'h world \<Rightarrow> 'h world" where
  "call_dealloc cb p w =
     w\<lparr>heap := (heap w)(p := None), host := dealloc cb p (host w),
       trace := trace w @ [Dealloc p]\<rparr>"

definition call_xmit_cb ::
  "'h bt_vendor_callbacks_t \<Rightarrow> u16 \<Rightarrow> addr \<Rightarrow> tINT_CMD_CBACK \<Rightarrow> 'h world
     \<Rightarrow> fault + (bool \<times> 'h world)" where
  "call_xmit_cb cb opcode p k w =
     (case heap w p of
        None \<Rightarrow> Inl BadPointer
      | Some b \<Rightarrow>
          (case xmit_cb cb opcode p b k (host w) of
             (r, h) \<Rightarrow> Inr (r, w\<lparr>host := h, trace := trace w @ [Xmit opcode p b k r]\<rparr>)))"

definition call_fwcfg_cb ::
  "'h bt_vendor_callbacks_t \<Rightarrow> bt_vendor_op_result_t \<Rightarrow> 'h world \<Rightarrow> 'h world" where
  "call_fwcfg_cb cb r w =
     w\<lparr>host := fwcfg_cb cb r (host w), trace := trace w @ [Fwcfg r]\<rparr>"

definition call_scocfg_cb ::
  "'h bt_vendor_callbacks_t \<Rightarrow> bt_vendor_op_result_t \<Rightarrow> 'h world \<Rightarrow> 'h world" where
  "call_scocfg_cb cb r w =
     w\<lparr>host := scocfg_cb cb r (host w), trace := trace w @ [Scocfg r]\<rparr>"

subsection \<open>Local functions\<close>

text \<open>
  \<open>populate_bd_addr_params(params, addr)\<close>: \<open>params\<close> is the array \<open>ps\<close> from
  position \<open>off\<close> on. Six bytes are written, \<open>addr[5]\<close> first.
\<close>

definition populate_bd_addr_params :: "u8 list \<Rightarrow> nat \<Rightarrow> u8 list \<Rightarrow> fault + u8 list" where
  "populate_bd_addr_params ps off a =
     (if length a < 6 \<or> length ps < off + 6 then Inl BadPointer
      else Inr (ps[off := a ! 5, off + 1 := a ! 4, off + 2 := a ! 3,
                   off + 3 := a ! 2, off + 4 := a ! 1, off + 5 := a ! 0]))"

text \<open>
  \<open>build_cmd_buf(cmd, pl_len, payload)\<close>: the result is the pointer returned
  (\<open>None\<close> for null) and the new state. \<open>memcpy\<close> reads \<open>pl_len\<close> bytes of the
  payload array.
\<close>

definition build_cmd_buf ::
  "u16 \<Rightarrow> u8 \<Rightarrow> u8 list \<Rightarrow> 'h world \<Rightarrow> fault + (addr option \<times> 'h world)" where
  "build_cmd_buf opcode pl_len payload w =
     (let cmd_len = HCI_CMD_PREAMBLE_SIZE + ucast pl_len in
      case bt_vendor_cbacks w of
        None \<Rightarrow> Inr (None, w)
      | Some cb \<Rightarrow>
          (case call_alloc cb (BT_HC_HDR_SIZE w + unat cmd_len) w of
             (None, w1) \<Rightarrow> Inr (None, w1)
           | (Some p, w1) \<Rightarrow>
               if length payload < unat pl_len then Inl BadPointer
               else Inr (Some p,
                 w1\<lparr>heap := (heap w1)(p \<mapsto>
                   \<lparr>event = MSG_STACK_TO_HC_HCI_CMD w1, len = cmd_len, offset = 0,
                    layer_specific = 0,
                    body = UINT16_TO_STREAM opcode @ [pl_len] @ take (unat pl_len) payload\<rparr>)\<rparr>)))"

text \<open>
  \<open>parse_evt_buf(p_evt_buf, evt_params)\<close>, on the buffer that \<open>p_evt_buf\<close> points
  to: the record \<open>evt_params\<close> is returned with its two fields written.
\<close>

definition parse_evt_buf :: "HC_BT_HDR \<Rightarrow> bt_evt_param_t \<Rightarrow> fault + bt_evt_param_t" where
  "parse_evt_buf b evt_params =
     (case STREAM_TO_UINT16 (body b) HCI_EVT_CMD_CMPL_OPCODE of
        Inl f \<Rightarrow> Inl f
      | Inr (v, p) \<Rightarrow>
          if p < length (body b)
          then Inr (evt_params\<lparr>cmd := v, cmd_ret_param := body b ! p\<rparr>)
          else Inl BadPointer)"

text \<open>\<open>hw_mrvl_config_start_cb(p_mem)\<close>\<close>

definition hw_mrvl_config_start_cb :: "addr option \<Rightarrow> 'h world \<Rightarrow> fault + 'h world" where
  "hw_mrvl_config_start_cb p_mem w =
     (case p_mem of
        None \<Rightarrow> Inl AssertFailed
      | Some p_evt_buf \<Rightarrow>
          (case heap w p_evt_buf of
             None \<Rightarrow> Inl BadPointer
           | Some b \<Rightarrow>
               (case parse_evt_buf b \<lparr>cmd = 0, cmd_ret_param = 0\<rparr> of
                  Inl f \<Rightarrow> Inl f
                | Inr evt_params \<Rightarrow>
                    (let w1 = (case bt_vendor_cbacks w of
                                 None \<Rightarrow> w
                               | Some cb \<Rightarrow> call_dealloc cb p_evt_buf w)
                     in if cmd evt_params = HCI_CMD_MARVELL_WRITE_BD_ADDRESS
                        then Inr (case bt_vendor_cbacks w1 of
                                    None \<Rightarrow> w1
                                  | Some cb \<Rightarrow> call_fwcfg_cb cb BT_VND_OP_RESULT_SUCCESS w1)
                        else Inr (case bt_vendor_cbacks w1 of
                                    None \<Rightarrow> w1
                                  | Some cb \<Rightarrow> call_fwcfg_cb cb BT_VND_OP_RESULT_FAIL w1)))))"

text \<open>
  \<open>hw_mrvl_sco_config_cb(p_mem)\<close>. The \<open>switch\<close> either leaves the function
  (\<open>None\<close> below, the case of set-SCO-data-path) or goes on to the statements after it
  with the locals \<open>cmd\<close> and \<open>p_buf\<close>, which start as 0 and null.
\<close>

definition hw_mrvl_sco_config_cb :: "addr option \<Rightarrow> 'h world \<Rightarrow> fault + 'h world" where
  "hw_mrvl_sco_config_cb p_mem w =
     (case (bt_vendor_cbacks w, p_mem) of
        (Some cb, Some p_evt_buf) \<Rightarrow>
          (case heap w p_evt_buf of
             None \<Rightarrow> Inl BadPointer
           | Some b \<Rightarrow>
               (case parse_evt_buf b \<lparr>cmd = 0, cmd_ret_param = 0\<rparr> of
                  Inl f \<Rightarrow> Inl f
                | Inr evt_params \<Rightarrow>
                    (let w1 = call_dealloc cb p_evt_buf w;
                         sw =
                           (if cmd evt_params = HCI_CMD_MARVELL_WRITE_PCM_SETTINGS
                            then map_sum id (\<lambda>r. Some (HCI_CMD_MARVELL_WRITE_PCM_SYNC_SETTINGS, r))
                                   (build_cmd_buf HCI_CMD_MARVELL_WRITE_PCM_SYNC_SETTINGS
                                      WRITE_PCM_SYNC_SETTINGS_SIZE (write_pcm_sync_settings w1) w1)
                            else if cmd evt_params = HCI_CMD_MARVELL_WRITE_PCM_SYNC_SETTINGS
                            then map_sum id (\<lambda>r. Some (HCI_CMD_MARVELL_WRITE_PCM_LINK_SETTINGS, r))
                                   (build_cmd_buf HCI_CMD_MARVELL_WRITE_PCM_LINK_SETTINGS
                                      WRITE_PCM_LINK_SETTINGS_SIZE (write_pcm_link_settings w1) w1)
                            else if cmd evt_params = HCI_CMD_MARVELL_WRITE_PCM_LINK_SETTINGS
                            then map_sum id (\<lambda>r. Some (HCI_CMD_MARVELL_SET_SCO_DATA_PATH, r))
                                   (build_cmd_buf HCI_CMD_MARVELL_SET_SCO_DATA_PATH
                                      SET_SCO_DATA_PATH_SIZE (set_sco_data_path w1) w1)
                            else if cmd evt_params = HCI_CMD_MARVELL_SET_SCO_DATA_PATH
                            then Inr None
                            else Inr (Some (0, None, w1)))
                     in case sw of
                          Inl f \<Rightarrow> Inl f
                        | Inr None \<Rightarrow>
                            Inr (case bt_vendor_cbacks w1 of
                                   None \<Rightarrow> w1
                                 | Some cb1 \<Rightarrow> call_scocfg_cb cb1 BT_VND_OP_RESULT_SUCCESS w1)
                        | Inr (Some (opcode, None, w2)) \<Rightarrow>
                            Inr (call_scocfg_cb cb BT_VND_OP_RESULT_FAIL w2)
                        | Inr (Some (opcode, Some p_buf, w2)) \<Rightarrow>
                            (case call_xmit_cb cb opcode p_buf Hw_mrvl_sco_config_cb w2 of
                               Inl f \<Rightarrow> Inl f
                             | Inr (True, w3) \<Rightarrow> Inr w3
                             | Inr (False, w3) \<Rightarrow>
                                 Inr (call_scocfg_cb cb BT_VND_OP_RESULT_FAIL
                                        (call_dealloc cb p_buf w3))))))
      | _ \<Rightarrow> Inl AssertFailed)"

subsection \<open>Global functions\<close>

text \<open>\<open>hw_mrvl_config_start()\<close>\<close>

definition hw_mrvl_config_start :: "'h world \<Rightarrow> fault + 'h world" where
  "hw_mrvl_config_start w =
     (case bt_vendor_cbacks w of
        None \<Rightarrow> Inl AssertFailed
      | Some cb \<Rightarrow>
          (case populate_bd_addr_params (write_bd_address w) 2 (vnd_local_bd_addr w) of
             Inl f \<Rightarrow> Inl f
           | Inr t \<Rightarrow>
               (let w1 = w\<lparr>write_bd_address := t\<rparr> in
                case build_cmd_buf HCI_CMD_MARVELL_WRITE_BD_ADDRESS WRITE_BD_ADDRESS_SIZE
                       (write_bd_address w1) w1 of
                  Inl f \<Rightarrow> Inl f
                | Inr (None, w2) \<Rightarrow> Inr (call_fwcfg_cb cb BT_VND_OP_RESULT_FAIL w2)
                | Inr (Some p_buf, w2) \<Rightarrow>
                    (case call_xmit_cb cb HCI_CMD_MARVELL_WRITE_BD_ADDRESS p_buf
                            Hw_mrvl_config_start_cb w2 of
                       Inl f \<Rightarrow> Inl f
                     | Inr (True, w3) \<Rightarrow> Inr w3
                     | Inr (False, w3) \<Rightarrow>
                         Inr (call_fwcfg_cb cb BT_VND_OP_RESULT_FAIL
                                (call_dealloc cb p_buf w3))))))"

text \<open>\<open>hw_mrvl_sco_config()\<close>\<close>

definition hw_mrvl_sco_config :: "'h world \<Rightarrow> fault + 'h world" where
  "hw_mrvl_sco_config w =
     (case bt_vendor_cbacks w of
        None \<Rightarrow> Inl AssertFailed
      | Some cb \<Rightarrow>
          (case build_cmd_buf HCI_CMD_MARVELL_WRITE_PCM_SETTINGS WRITE_PCM_SETTINGS_SIZE
                  (write_pcm_settings w) w of
             Inl f \<Rightarrow> Inl f
           | Inr (None, w2) \<Rightarrow> Inr (call_scocfg_cb cb BT_VND_OP_RESULT_FAIL w2)
           | Inr (Some p_buf, w2) \<Rightarrow>
               (case call_xmit_cb cb HCI_CMD_MARVELL_WRITE_PCM_SETTINGS p_buf
                       Hw_mrvl_sco_config_cb w2 of
                  Inl f \<Rightarrow> Inl f
                | Inr (True, w3) \<Rightarrow> Inr w3
                | Inr (False, w3) \<Rightarrow>
                    Inr (call_scocfg_cb cb BT_VND_OP_RESULT_FAIL (call_dealloc cb p_buf w3)))))"

text \<open>
  \<open>bt_vnd_mrvl_if_init(p_cb, local_bdaddr)\<close>: stores the callback table and copies
  six bytes of the address. The function returns 0; the model returns the state.
\<close>

definition bt_vnd_mrvl_if_init ::
  "'h bt_vendor_callbacks_t option \<Rightarrow> u8 list \<Rightarrow> 'h world \<Rightarrow> fault + 'h world" where
  "bt_vnd_mrvl_if_init p_cb local_bdaddr w =
     (if length local_bdaddr < 6 then Inl BadPointer
      else Inr (w\<lparr>bt_vendor_cbacks := p_cb,
                  vnd_local_bd_addr := take 6 local_bdaddr\<rparr>))"

subsection \<open>Reading the log\<close>

text \<open>The opcodes handed to the transport, in order, and those it accepted.\<close>

fun sent :: "call list \<Rightarrow> u16 list" where
  "sent [] = []"
| "sent (Xmit c p b k r # es) = c # sent es"
| "sent (e # es) = sent es"

fun accepted :: "call list \<Rightarrow> u16 list" where
  "accepted [] = []"
| "accepted (Xmit c p b k True # es) = c # accepted es"
| "accepted (e # es) = accepted es"

text \<open>The calls of the two result callbacks, in order.\<close>

fun reported :: "call list \<Rightarrow> call list" where
  "reported [] = []"
| "reported (Fwcfg r # es) = Fwcfg r # reported es"
| "reported (Scocfg r # es) = Scocfg r # reported es"
| "reported (e # es) = reported es"

text \<open>
  How often the buffer at address \<open>p\<close> is given back in a log. Once the allocator has
  handed out the address \<open>p\<close> again, \<open>p\<close> names a new buffer, and the count stops.
\<close>

fun frees :: "addr \<Rightarrow> call list \<Rightarrow> nat" where
  "frees p [] = 0"
| "frees p (Dealloc q # es) = (if q = p then Suc (frees p es) else frees p es)"
| "frees p (Alloc n r # es) = (if r = Some p then 0 else frees p es)"
| "frees p (e # es) = frees p es"

text \<open>The arrays of the file have the sizes of their declarations.\<close>

definition globals_ok :: "'h world \<Rightarrow> bool" where
  "globals_ok w \<longleftrightarrow>
     length (vnd_local_bd_addr w) = 6 \<and>
     length (write_pcm_settings w) = 1 \<and>
     length (write_pcm_sync_settings w) = 3 \<and>
     length (write_pcm_link_settings w) = 2 \<and>
     length (set_sco_data_path w) = 1 \<and>
     length (write_bd_address w) = 8"

subsection \<open>The state at load time and two host stacks\<close>

text \<open>
  The globals with their initialisers, no callback table, no buffer. The two macros of
  \<open>bt_hci_bdroid.h\<close> have the values of that header. The host state of the examples
  is the number of buffers handed out so far.
\<close>

definition at_load :: "nat world" where
  "at_load =
     \<lparr>bt_vendor_cbacks = None,
      vnd_local_bd_addr = [0, 0, 0, 0, 0, 0],
      write_pcm_settings = [0x02],
      write_pcm_sync_settings = [0x03, 0x00, 0x03],
      write_pcm_link_settings = [0x03, 0x00],
      set_sco_data_path = [0x01],
      write_bd_address = [0xFE, 0x06, 0x00, 0x00, 0x00, 0x00, 0x00, 0x00],
      BT_HC_HDR_SIZE = 8,
      MSG_STACK_TO_HC_HCI_CMD = 0x2000,
      heap = Map.empty,
      host = 0,
      trace = []\<rparr>"

text \<open>A host that hands out a new address at each allocation and accepts every command.\<close>

definition willing_host :: "nat bt_vendor_callbacks_t" where
  "willing_host =
     \<lparr>alloc = (\<lambda>n h. (Some (100 + h), Suc h)),
      dealloc = (\<lambda>p h. h),
      xmit_cb = (\<lambda>c p b k h. (True, h)),
      fwcfg_cb = (\<lambda>r h. h),
      scocfg_cb = (\<lambda>r h. h)\<rparr>"

text \<open>A host whose transport refuses every command.\<close>

definition refusing_host :: "nat bt_vendor_callbacks_t" where
  "refusing_host =
     \<lparr>alloc = (\<lambda>n h. (Some (100 + h), Suc h)),
      dealloc = (\<lambda>p h. h),
      xmit_cb = (\<lambda>c p b k h. (False, h)),
      fwcfg_cb = (\<lambda>r h. h),
      scocfg_cb = (\<lambda>r h. h)\<rparr>"

text \<open>The state at load time with each of the two hosts registered.\<close>

definition ready :: "nat world" where
  "ready = at_load\<lparr>bt_vendor_cbacks := Some willing_host\<rparr>"

definition blocked :: "nat world" where
  "blocked = at_load\<lparr>bt_vendor_cbacks := Some refusing_host\<rparr>"

text \<open>A command-complete event for the command \<open>c\<close> with status byte \<open>s\<close>.\<close>

definition cmd_cmpl_evt :: "u16 \<Rightarrow> u8 \<Rightarrow> HC_BT_HDR" where
  "cmd_cmpl_evt c s =
     \<lparr>event = 0x1000, len = 6, offset = 0, layer_specific = 0,
      body = [0x0E, 0x04, 0x01, ucast c, ucast (drop_bit 8 c), s]\<rparr>"

text \<open>The globals of the file are the same in two states.\<close>

definition same_globals :: "'h world \<Rightarrow> 'h world \<Rightarrow> bool" where
  "same_globals w w' \<longleftrightarrow>
     bt_vendor_cbacks w' = bt_vendor_cbacks w \<and>
     vnd_local_bd_addr w' = vnd_local_bd_addr w \<and>
     write_pcm_settings w' = write_pcm_settings w \<and>
     write_pcm_sync_settings w' = write_pcm_sync_settings w \<and>
     write_pcm_link_settings w' = write_pcm_link_settings w \<and>
     set_sco_data_path w' = set_sco_data_path w \<and>
     write_bd_address w' = write_bd_address w \<and>
     BT_HC_HDR_SIZE w' = BT_HC_HDR_SIZE w \<and>
     MSG_STACK_TO_HC_HCI_CMD w' = MSG_STACK_TO_HC_HCI_CMD w"

text \<open>The opcode that \<open>parse_evt_buf\<close> finds in an event buffer, if it can be parsed.\<close>

definition completed :: "HC_BT_HDR \<Rightarrow> u16 option" where
  "completed b =
     (case parse_evt_buf b \<lparr>cmd = 0, cmd_ret_param = 0\<rparr> of
        Inl f \<Rightarrow> None
      | Inr evt_params \<Rightarrow> Some (cmd evt_params))"

text \<open>
  The command that the SCO chain sends after the completion of \<open>c\<close>, for the
  three opcodes that have a successor in the \<open>switch\<close> of \<open>hw_mrvl_sco_config_cb\<close>.
\<close>

definition sco_next :: "u16 \<Rightarrow> u16" where
  "sco_next c =
     (if c = HCI_CMD_MARVELL_WRITE_PCM_SETTINGS then HCI_CMD_MARVELL_WRITE_PCM_SYNC_SETTINGS
      else if c = HCI_CMD_MARVELL_WRITE_PCM_SYNC_SETTINGS
      then HCI_CMD_MARVELL_WRITE_PCM_LINK_SETTINGS
      else HCI_CMD_MARVELL_SET_SCO_DATA_PATH)"

subsection \<open>The transport, seen from this file\<close>

text \<open>
  The transport belongs to the host stack. What this file relies on is its contract:
  when \<open>xmit_cb\<close> has returned true for a command handed over with a completion
  callback, the transport later calls that callback with the buffer of the completion
  event; when \<open>xmit_cb\<close> has returned false, it calls nothing. The three definitions
  below are this contract, written as a driver for the two callbacks of the file.

  \<open>pending\<close>: the callback that waits for an event, read off the last entry of the log.
\<close>

definition pending :: "call list \<Rightarrow> tINT_CMD_CBACK option" where
  "pending tr =
     (case rev tr of
        Xmit c p b k True # es \<Rightarrow> Some k
      | _ \<Rightarrow> None)"

text \<open>\<open>deliver\<close>: the event buffer \<open>e\<close> appears at the address \<open>p\<close>, and the callback is called with it.\<close>

definition deliver :: "tINT_CMD_CBACK \<Rightarrow> addr \<Rightarrow> HC_BT_HDR \<Rightarrow> 'h world \<Rightarrow> fault + 'h world" where
  "deliver k p e w =
     (case k of
        Hw_mrvl_config_start_cb \<Rightarrow> hw_mrvl_config_start_cb (Some p) (w\<lparr>heap := (heap w)(p \<mapsto> e)\<rparr>)
      | Hw_mrvl_sco_config_cb \<Rightarrow> hw_mrvl_sco_config_cb (Some p) (w\<lparr>heap := (heap w)(p \<mapsto> e)\<rparr>))"

text \<open>
  \<open>transport\<close>: the events arrive one after the other, each for the callback that is
  waiting. The result is the last state and the events that nobody was waiting for.
\<close>

fun transport ::
  "(addr \<times> HC_BT_HDR) list \<Rightarrow> 'h world \<Rightarrow> fault + ('h world \<times> (addr \<times> HC_BT_HDR) list)" where
  "transport [] w = Inr (w, [])"
| "transport ((p, e) # evts) w =
     (case pending (trace w) of
        None \<Rightarrow> Inr (w, (p, e) # evts)
      | Some k \<Rightarrow>
          (case deliver k p e w of
             Inl f \<Rightarrow> Inl f
           | Inr w1 \<Rightarrow> transport evts w1))"

text \<open>The SCO chain from its entry point on, with the events that arrive afterwards.\<close>

definition sco_run ::
  "(addr \<times> HC_BT_HDR) list \<Rightarrow> 'h world \<Rightarrow> fault + ('h world \<times> (addr \<times> HC_BT_HDR) list)" where
  "sco_run evts w =
     (case hw_mrvl_sco_config w of
        Inl f \<Rightarrow> Inl f
      | Inr w1 \<Rightarrow> transport evts w1)"

text \<open>
  One call either hands a command to the transport, which accepts it, and reports
  nothing, or has no command accepted and reports once, through the callback \<open>R\<close>.
\<close>

definition one_outcome :: "(bt_vendor_op_result_t \<Rightarrow> call) \<Rightarrow> call list \<Rightarrow> bool" where
  "one_outcome R evs \<longleftrightarrow>
     (length (accepted evs) = 1 \<and> reported evs = []) \<or>
     (accepted evs = [] \<and>
      (reported evs = [R BT_VND_OP_RESULT_SUCCESS] \<or> reported evs = [R BT_VND_OP_RESULT_FAIL]))"

text \<open>
  The buffer that \<open>build_cmd_buf\<close> leaves at the address it returns (lines 176 to
  191 of the C file): the header fields and the bytes of the command.
\<close>

definition cmd_buf :: "'h world \<Rightarrow> u16 \<Rightarrow> u8 \<Rightarrow> u8 list \<Rightarrow> HC_BT_HDR" where
  "cmd_buf w opcode pl_len payload =
     \<lparr>event = MSG_STACK_TO_HC_HCI_CMD w, len = HCI_CMD_PREAMBLE_SIZE + ucast pl_len,
      offset = 0, layer_specific = 0,
      body = UINT16_TO_STREAM opcode @ [pl_len] @ take (unat pl_len) payload\<rparr>"

section \<open>Auxiliary facts\<close>

subsection \<open>Bytes and 16-bit values\<close>

lemma unat_ucast_u8_u16: "unat (ucast (n :: u8) :: u16) = unat n"
  by (simp add: unsigned_ucast_eq take_bit_nat_eq_self_iff)
    (rule order_less_trans [OF unsigned_less], simp)

lemma unat_cmd_len: "unat (HCI_CMD_PREAMBLE_SIZE + ucast (n :: u8) :: u16) = 3 + unat n"
proof -
  have "unat n < 256" using unsigned_less [of n] by simp
  then have "unat (3 :: u16) + unat (ucast n :: u16) < 2 ^ LENGTH(16)"
    by (simp add: unat_ucast_u8_u16)
  then have "unat ((3 :: u16) + ucast n) = unat (3 :: u16) + unat (ucast n :: u16)"
    by (simp only: unat_add_lem)
  then show ?thesis by (simp add: HCI_CMD_PREAMBLE_SIZE_def unat_ucast_u8_u16)
qed

lemma unat_low_byte: "unat (ucast (v :: u16) :: u8) = unat v mod 256"
  by (simp add: unsigned_ucast_eq take_bit_eq_mod)

lemma unat_high_byte: "unat (ucast (drop_bit 8 (v :: u16)) :: u8) = unat v div 256"
proof -
  have "unat v < 65536" using unsigned_less [of v] by simp
  then have "unat v div 256 < 256" by simp
  moreover have "unat (drop_bit 8 v) = unat v div 256"
    by (simp add: drop_bit_eq_div unat_div_distrib)
  moreover have "unat (ucast (drop_bit 8 v) :: u8) = unat (drop_bit 8 v) mod 256"
    by (rule unat_low_byte)
  ultimately show ?thesis by (simp only: mod_less)
qed

lemma unat_le16:
  "unat ((ucast (a :: u8) :: u16) + push_bit 8 (ucast (b :: u8) :: u16)) = unat a + 256 * unat b"
proof -
  have a: "unat a < 256" using unsigned_less [of a] by simp
  have b: "unat b < 256" using unsigned_less [of b] by simp
  have "unat (ucast b :: u16) * unat (256 :: u16) < 2 ^ LENGTH(16)"
    using b by (simp add: unat_ucast_u8_u16)
  then have "unat ((ucast b :: u16) * 256) = unat (ucast b :: u16) * unat (256 :: u16)"
    by (simp only: unat_mult_lem)
  then have pb: "unat (push_bit 8 (ucast b :: u16)) = 256 * unat b"
    by (simp add: push_bit_eq_mult unat_ucast_u8_u16)
  have "unat (ucast a :: u16) + unat (push_bit 8 (ucast b :: u16)) < 2 ^ LENGTH(16)"
    using a b by (simp add: pb unat_ucast_u8_u16)
  then have "unat ((ucast a :: u16) + push_bit 8 (ucast b)) =
      unat (ucast a :: u16) + unat (push_bit 8 (ucast b :: u16))"
    by (simp only: unat_add_lem)
  then show ?thesis by (simp add: pb unat_ucast_u8_u16)
qed

lemmas opcode_defs =
  HCI_CMD_MARVELL_WRITE_PCM_SETTINGS_def HCI_CMD_MARVELL_WRITE_PCM_SYNC_SETTINGS_def
  HCI_CMD_MARVELL_WRITE_PCM_LINK_SETTINGS_def HCI_CMD_MARVELL_SET_SCO_DATA_PATH_def
  HCI_CMD_MARVELL_WRITE_BD_ADDRESS_def

lemmas size_defs =
  WRITE_PCM_SETTINGS_SIZE_def WRITE_PCM_SYNC_SETTINGS_SIZE_def
  WRITE_PCM_LINK_SETTINGS_SIZE_def SET_SCO_DATA_PATH_SIZE_def WRITE_BD_ADDRESS_SIZE_def

lemmas call_defs =
  call_alloc_def call_dealloc_def call_xmit_cb_def call_fwcfg_cb_def call_scocfg_cb_def

subsection \<open>The address template\<close>

lemma list8: "length (ps :: 'a list) = 8 \<Longrightarrow> \<exists>a b c d e f g h. ps = [a, b, c, d, e, f, g, h]"
  by (auto simp: eval_nat_numeral length_Suc_conv)

lemma list6: "length (ps :: 'a list) = 6 \<Longrightarrow> \<exists>a b c d e f. ps = [a, b, c, d, e, f]"
  by (auto simp: eval_nat_numeral length_Suc_conv)

lemma populate_bd_addr_params_eq:
  assumes "length ps = 8" and "length a = 6"
  shows "populate_bd_addr_params ps 2 a = Inr (take 2 ps @ rev a)"
proof -
  from list8 [OF assms(1)] obtain p0 p1 p2 p3 p4 p5 p6 p7
    where ps: "ps = [p0, p1, p2, p3, p4, p5, p6, p7]" by blast
  from list6 [OF assms(2)] obtain a0 a1 a2 a3 a4 a5
    where a: "a = [a0, a1, a2, a3, a4, a5]" by blast
  show ?thesis by (simp add: populate_bd_addr_params_def ps a)
qed

subsection \<open>Building a command\<close>

lemma build_no_table:
  "bt_vendor_cbacks w = None \<Longrightarrow> build_cmd_buf c n pl w = Inr (None, w)"
  by (simp add: build_cmd_buf_def)

lemma build_no_mem:
  "bt_vendor_cbacks w = Some cb \<Longrightarrow>
   alloc cb (BT_HC_HDR_SIZE w + (3 + unat n)) (host w) = (None, h) \<Longrightarrow>
   build_cmd_buf c n pl w =
     Inr (None, w\<lparr>host := h, trace := trace w @ [Alloc (BT_HC_HDR_SIZE w + (3 + unat n)) None]\<rparr>)"
  by (simp add: build_cmd_buf_def call_alloc_def unat_cmd_len)

lemma build_ok:
  "bt_vendor_cbacks w = Some cb \<Longrightarrow>
   alloc cb (BT_HC_HDR_SIZE w + (3 + unat n)) (host w) = (Some p, h) \<Longrightarrow>
   unat n \<le> length pl \<Longrightarrow>
   build_cmd_buf c n pl w =
     Inr (Some p,
       w\<lparr>host := h, trace := trace w @ [Alloc (BT_HC_HDR_SIZE w + (3 + unat n)) (Some p)],
         heap := (heap w)(p \<mapsto>
           \<lparr>event = MSG_STACK_TO_HC_HCI_CMD w, len = HCI_CMD_PREAMBLE_SIZE + ucast n,
            offset = 0, layer_specific = 0,
            body = UINT16_TO_STREAM c @ [n] @ take (unat n) pl\<rparr>)\<rparr>)"
  by (simp add: build_cmd_buf_def call_alloc_def unat_cmd_len)

lemma build_ok_cmd_buf:
  "bt_vendor_cbacks w = Some cb \<Longrightarrow>
   alloc cb (BT_HC_HDR_SIZE w + (3 + unat n)) (host w) = (Some p, h) \<Longrightarrow>
   unat n \<le> length pl \<Longrightarrow>
   build_cmd_buf c n pl w =
     Inr (Some p,
       w\<lparr>host := h, trace := trace w @ [Alloc (BT_HC_HDR_SIZE w + (3 + unat n)) (Some p)],
         heap := (heap w)(p \<mapsto> cmd_buf w c n pl)\<rparr>)"
  by (simp add: build_ok cmd_buf_def)

subsection \<open>Build, send, or fail\<close>

lemma same_globals_trans: "same_globals a b \<Longrightarrow> same_globals b c \<Longrightarrow> same_globals a c"
  by (simp add: same_globals_def)

lemma same_globals_dealloc: "same_globals w (call_dealloc cb p w)"
  by (simp add: same_globals_def call_dealloc_def)

lemma globals_ok_same: "same_globals w w' \<Longrightarrow> globals_ok w \<Longrightarrow> globals_ok w'"
  by (simp add: same_globals_def globals_ok_def)

lemma sco_send_tail:
  assumes cb: "bt_vendor_cbacks w = Some cb"
    and len: "unat n \<le> length pl"
  shows "\<exists>w' m. (case build_cmd_buf c n pl w of
            Inl f \<Rightarrow> Inl f
          | Inr (None, w2) \<Rightarrow> Inr (call_scocfg_cb cb BT_VND_OP_RESULT_FAIL w2)
          | Inr (Some p_buf, w2) \<Rightarrow>
              (case call_xmit_cb cb c p_buf Hw_mrvl_sco_config_cb w2 of
                 Inl f \<Rightarrow> Inl f
               | Inr (True, w3) \<Rightarrow> Inr w3
               | Inr (False, w3) \<Rightarrow>
                   Inr (call_scocfg_cb cb BT_VND_OP_RESULT_FAIL (call_dealloc cb p_buf w3)))) = Inr w' \<and>
     same_globals w w' \<and>
     (trace w' = trace w @ [Alloc m None, Scocfg BT_VND_OP_RESULT_FAIL] \<or>
      (\<exists>q b. trace w' = trace w @ [Alloc m (Some q), Xmit c q b Hw_mrvl_sco_config_cb True]) \<or>
      (\<exists>q b. trace w' = trace w @ [Alloc m (Some q), Xmit c q b Hw_mrvl_sco_config_cb False,
           Dealloc q, Scocfg BT_VND_OP_RESULT_FAIL]))"
proof -
  let ?m = "BT_HC_HDR_SIZE w + (3 + unat n)"
  obtain r h where a: "alloc cb ?m (host w) = (r, h)" by (cases "alloc cb ?m (host w)")
  show ?thesis
  proof (cases r)
    case None
    with cb a show ?thesis
      by (simp add: build_no_mem call_scocfg_cb_def same_globals_def)
  next
    case (Some q)
    note b = build_ok [OF cb a [unfolded Some] len]
    show ?thesis using cb
      by (simp add: b call_xmit_cb_def call_scocfg_cb_def call_dealloc_def
          same_globals_def split: prod.split bool.split)
  qed
qed

lemma fw_send_tail:
  assumes cb: "bt_vendor_cbacks w = Some cb"
    and len: "unat n \<le> length pl"
  shows "\<exists>w' m. (case build_cmd_buf c n pl w of
            Inl f \<Rightarrow> Inl f
          | Inr (None, w2) \<Rightarrow> Inr (call_fwcfg_cb cb BT_VND_OP_RESULT_FAIL w2)
          | Inr (Some p_buf, w2) \<Rightarrow>
              (case call_xmit_cb cb c p_buf Hw_mrvl_config_start_cb w2 of
                 Inl f \<Rightarrow> Inl f
               | Inr (True, w3) \<Rightarrow> Inr w3
               | Inr (False, w3) \<Rightarrow>
                   Inr (call_fwcfg_cb cb BT_VND_OP_RESULT_FAIL (call_dealloc cb p_buf w3)))) = Inr w' \<and>
     same_globals w w' \<and>
     (trace w' = trace w @ [Alloc m None, Fwcfg BT_VND_OP_RESULT_FAIL] \<or>
      (\<exists>q b. body b = UINT16_TO_STREAM c @ [n] @ take (unat n) pl \<and>
         (trace w' = trace w @ [Alloc m (Some q), Xmit c q b Hw_mrvl_config_start_cb True] \<or>
          trace w' = trace w @ [Alloc m (Some q), Xmit c q b Hw_mrvl_config_start_cb False,
           Dealloc q, Fwcfg BT_VND_OP_RESULT_FAIL])))"
proof -
  let ?m = "BT_HC_HDR_SIZE w + (3 + unat n)"
  obtain r h where a: "alloc cb ?m (host w) = (r, h)" by (cases "alloc cb ?m (host w)")
  show ?thesis
  proof (cases r)
    case None
    with cb a show ?thesis
      by (simp add: build_no_mem call_fwcfg_cb_def same_globals_def)
  next
    case (Some q)
    note b = build_ok [OF cb a [unfolded Some] len]
    show ?thesis using cb
      by (simp add: b call_xmit_cb_def call_fwcfg_cb_def call_dealloc_def
          same_globals_def split: prod.split bool.split)
  qed
qed

subsection \<open>The log of one call\<close>

lemma sco_config_shape:
  assumes cb: "bt_vendor_cbacks w = Some cb" and ok: "globals_ok w"
  shows "\<exists>w' m. hw_mrvl_sco_config w = Inr w' \<and> same_globals w w' \<and>
     (trace w' = trace w @ [Alloc m None, Scocfg BT_VND_OP_RESULT_FAIL] \<or>
      (\<exists>q b. trace w' = trace w @ [Alloc m (Some q),
           Xmit HCI_CMD_MARVELL_WRITE_PCM_SETTINGS q b Hw_mrvl_sco_config_cb True]) \<or>
      (\<exists>q b. trace w' = trace w @ [Alloc m (Some q),
           Xmit HCI_CMD_MARVELL_WRITE_PCM_SETTINGS q b Hw_mrvl_sco_config_cb False,
           Dealloc q, Scocfg BT_VND_OP_RESULT_FAIL]))"
proof -
  have len: "unat WRITE_PCM_SETTINGS_SIZE \<le> length (write_pcm_settings w)"
    using ok by (simp add: globals_ok_def WRITE_PCM_SETTINGS_SIZE_def)
  show ?thesis
    using sco_send_tail [OF cb len, of HCI_CMD_MARVELL_WRITE_PCM_SETTINGS] cb
    by (simp add: hw_mrvl_sco_config_def)
qed

lemma sco_config_cb_shape:
  assumes cb: "bt_vendor_cbacks w = Some cb" and ok: "globals_ok w"
    and e: "heap w p = Some e"
    and ev: "parse_evt_buf e \<lparr>cmd = 0, cmd_ret_param = 0\<rparr> = Inr ev"
  shows "\<exists>w'. hw_mrvl_sco_config_cb (Some p) w = Inr w' \<and> same_globals w w' \<and>
     (if cmd ev = HCI_CMD_MARVELL_SET_SCO_DATA_PATH
      then trace w' = trace w @ [Dealloc p, Scocfg BT_VND_OP_RESULT_SUCCESS]
      else if cmd ev = HCI_CMD_MARVELL_WRITE_PCM_SETTINGS \<or>
              cmd ev = HCI_CMD_MARVELL_WRITE_PCM_SYNC_SETTINGS \<or>
              cmd ev = HCI_CMD_MARVELL_WRITE_PCM_LINK_SETTINGS
      then \<exists>m. trace w' = trace w @ [Dealloc p, Alloc m None, Scocfg BT_VND_OP_RESULT_FAIL] \<or>
        (\<exists>q b. trace w' = trace w @ [Dealloc p, Alloc m (Some q),
             Xmit (sco_next (cmd ev)) q b Hw_mrvl_sco_config_cb True]) \<or>
        (\<exists>q b. trace w' = trace w @ [Dealloc p, Alloc m (Some q),
             Xmit (sco_next (cmd ev)) q b Hw_mrvl_sco_config_cb False,
             Dealloc q, Scocfg BT_VND_OP_RESULT_FAIL])
      else trace w' = trace w @ [Dealloc p, Scocfg BT_VND_OP_RESULT_FAIL])"
proof -
  let ?w1 = "call_dealloc cb p w"
  let ?tail = "\<lambda>c n pl. (case build_cmd_buf c n pl ?w1 of
            Inl f \<Rightarrow> Inl f
          | Inr (None, w2) \<Rightarrow> Inr (call_scocfg_cb cb BT_VND_OP_RESULT_FAIL w2)
          | Inr (Some p_buf, w2) \<Rightarrow>
              (case call_xmit_cb cb c p_buf Hw_mrvl_sco_config_cb w2 of
                 Inl f \<Rightarrow> Inl f
               | Inr (True, w3) \<Rightarrow> Inr w3
               | Inr (False, w3) \<Rightarrow>
                   Inr (call_scocfg_cb cb BT_VND_OP_RESULT_FAIL (call_dealloc cb p_buf w3))))"
  have cb1: "bt_vendor_cbacks ?w1 = Some cb" using cb by (simp add: call_dealloc_def)
  have tr1: "trace ?w1 = trace w @ [Dealloc p]" by (simp add: call_dealloc_def)
  have g1: "same_globals w ?w1" by (rule same_globals_dealloc)
  have ok1: "globals_ok ?w1" by (rule globals_ok_same [OF g1 ok])
  have tail: "\<exists>w'. ?tail c n pl = Inr w' \<and> same_globals w w' \<and>
     (\<exists>m. trace w' = trace w @ [Dealloc p, Alloc m None, Scocfg BT_VND_OP_RESULT_FAIL] \<or>
        (\<exists>q b. trace w' = trace w @ [Dealloc p, Alloc m (Some q),
             Xmit c q b Hw_mrvl_sco_config_cb True]) \<or>
        (\<exists>q b. trace w' = trace w @ [Dealloc p, Alloc m (Some q),
             Xmit c q b Hw_mrvl_sco_config_cb False,
             Dealloc q, Scocfg BT_VND_OP_RESULT_FAIL]))"
    if len: "unat n \<le> length pl" for c n pl
  proof -
    from sco_send_tail [OF cb1 len, of c] obtain w' m where
      t: "?tail c n pl = Inr w'" and g: "same_globals ?w1 w'" and
      s: "trace w' = trace ?w1 @ [Alloc m None, Scocfg BT_VND_OP_RESULT_FAIL] \<or>
        (\<exists>q b. trace w' = trace ?w1 @ [Alloc m (Some q), Xmit c q b Hw_mrvl_sco_config_cb True]) \<or>
        (\<exists>q b. trace w' = trace ?w1 @ [Alloc m (Some q), Xmit c q b Hw_mrvl_sco_config_cb False,
             Dealloc q, Scocfg BT_VND_OP_RESULT_FAIL])"
      by blast
    from s have "\<exists>m. trace w' = trace w @ [Dealloc p, Alloc m None, Scocfg BT_VND_OP_RESULT_FAIL] \<or>
        (\<exists>q b. trace w' = trace w @ [Dealloc p, Alloc m (Some q),
             Xmit c q b Hw_mrvl_sco_config_cb True]) \<or>
        (\<exists>q b. trace w' = trace w @ [Dealloc p, Alloc m (Some q),
             Xmit c q b Hw_mrvl_sco_config_cb False,
             Dealloc q, Scocfg BT_VND_OP_RESULT_FAIL])"
      unfolding tr1 by (intro exI [of _ m]) simp
    with t same_globals_trans [OF g1 g] show ?thesis by blast
  qed
  consider (a) "cmd ev = HCI_CMD_MARVELL_WRITE_PCM_SETTINGS"
    | (b) "cmd ev = HCI_CMD_MARVELL_WRITE_PCM_SYNC_SETTINGS"
    | (c) "cmd ev = HCI_CMD_MARVELL_WRITE_PCM_LINK_SETTINGS"
    | (d) "cmd ev = HCI_CMD_MARVELL_SET_SCO_DATA_PATH"
    | (u) "cmd ev \<noteq> HCI_CMD_MARVELL_WRITE_PCM_SETTINGS"
          "cmd ev \<noteq> HCI_CMD_MARVELL_WRITE_PCM_SYNC_SETTINGS"
          "cmd ev \<noteq> HCI_CMD_MARVELL_WRITE_PCM_LINK_SETTINGS"
          "cmd ev \<noteq> HCI_CMD_MARVELL_SET_SCO_DATA_PATH"
    by blast
  then show ?thesis
  proof cases
    case a
    have len: "unat WRITE_PCM_SYNC_SETTINGS_SIZE \<le> length (write_pcm_sync_settings ?w1)"
      using ok1 by (simp add: globals_ok_def WRITE_PCM_SYNC_SETTINGS_SIZE_def)
    have r: "hw_mrvl_sco_config_cb (Some p) w =
        ?tail HCI_CMD_MARVELL_WRITE_PCM_SYNC_SETTINGS WRITE_PCM_SYNC_SETTINGS_SIZE
          (write_pcm_sync_settings ?w1)"
      using cb e ev a
      by (simp add: hw_mrvl_sco_config_cb_def Let_def split: sum.splits prod.splits option.splits)
    have n: "sco_next (cmd ev) = HCI_CMD_MARVELL_WRITE_PCM_SYNC_SETTINGS"
      using a by (simp add: sco_next_def)
    have d: "cmd ev \<noteq> HCI_CMD_MARVELL_SET_SCO_DATA_PATH" using a by (simp add: opcode_defs)
    show ?thesis using tail [OF len, of HCI_CMD_MARVELL_WRITE_PCM_SYNC_SETTINGS] a d
      unfolding r n by simp
  next
    case b
    have len: "unat WRITE_PCM_LINK_SETTINGS_SIZE \<le> length (write_pcm_link_settings ?w1)"
      using ok1 by (simp add: globals_ok_def WRITE_PCM_LINK_SETTINGS_SIZE_def)
    have r: "hw_mrvl_sco_config_cb (Some p) w =
        ?tail HCI_CMD_MARVELL_WRITE_PCM_LINK_SETTINGS WRITE_PCM_LINK_SETTINGS_SIZE
          (write_pcm_link_settings ?w1)"
      using cb e ev b
      by (simp add: hw_mrvl_sco_config_cb_def Let_def opcode_defs
          split: sum.splits prod.splits option.splits)
    have n: "sco_next (cmd ev) = HCI_CMD_MARVELL_WRITE_PCM_LINK_SETTINGS"
      using b by (simp add: sco_next_def opcode_defs)
    have d: "cmd ev \<noteq> HCI_CMD_MARVELL_SET_SCO_DATA_PATH" using b by (simp add: opcode_defs)
    show ?thesis using tail [OF len, of HCI_CMD_MARVELL_WRITE_PCM_LINK_SETTINGS] b d
      unfolding r n by simp
  next
    case c
    have len: "unat SET_SCO_DATA_PATH_SIZE \<le> length (set_sco_data_path ?w1)"
      using ok1 by (simp add: globals_ok_def SET_SCO_DATA_PATH_SIZE_def)
    have r: "hw_mrvl_sco_config_cb (Some p) w =
        ?tail HCI_CMD_MARVELL_SET_SCO_DATA_PATH SET_SCO_DATA_PATH_SIZE (set_sco_data_path ?w1)"
      using cb e ev c
      by (simp add: hw_mrvl_sco_config_cb_def Let_def opcode_defs
          split: sum.splits prod.splits option.splits)
    have n: "sco_next (cmd ev) = HCI_CMD_MARVELL_SET_SCO_DATA_PATH"
      using c by (simp add: sco_next_def opcode_defs)
    have d: "cmd ev \<noteq> HCI_CMD_MARVELL_SET_SCO_DATA_PATH" using c by (simp add: opcode_defs)
    show ?thesis using tail [OF len, of HCI_CMD_MARVELL_SET_SCO_DATA_PATH] c d
      unfolding r n by simp
  next
    case d
    show ?thesis using cb e ev d
      by (simp add: hw_mrvl_sco_config_cb_def Let_def opcode_defs call_dealloc_def
          call_scocfg_cb_def same_globals_def)
  next
    case u
    show ?thesis using cb e ev u
      by (simp add: hw_mrvl_sco_config_cb_def Let_def call_dealloc_def call_scocfg_cb_def
          same_globals_def)
  qed
qed

lemma config_start_cb_eq:
  assumes e: "heap w p = Some e"
    and ev: "parse_evt_buf e \<lparr>cmd = 0, cmd_ret_param = 0\<rparr> = Inr ev"
  shows "hw_mrvl_config_start_cb (Some p) w =
     Inr (case bt_vendor_cbacks w of
            None \<Rightarrow> w
          | Some cb \<Rightarrow>
              call_fwcfg_cb cb
                (if cmd ev = HCI_CMD_MARVELL_WRITE_BD_ADDRESS then BT_VND_OP_RESULT_SUCCESS
                 else BT_VND_OP_RESULT_FAIL)
                (call_dealloc cb p w))"
  using e ev
  by (simp add: hw_mrvl_config_start_cb_def Let_def call_dealloc_def split: option.splits)

lemma config_start_shape:
  assumes cb: "bt_vendor_cbacks w = Some cb" and ok: "globals_ok w"
  shows "\<exists>w' m. hw_mrvl_config_start w = Inr w' \<and>
     same_globals
       (w\<lparr>write_bd_address := take 2 (write_bd_address w) @ rev (vnd_local_bd_addr w)\<rparr>) w' \<and>
     (trace w' = trace w @ [Alloc m None, Fwcfg BT_VND_OP_RESULT_FAIL] \<or>
      (\<exists>q b. body b = UINT16_TO_STREAM HCI_CMD_MARVELL_WRITE_BD_ADDRESS @ [WRITE_BD_ADDRESS_SIZE] @
                 take 2 (write_bd_address w) @ rev (vnd_local_bd_addr w) \<and>
         (trace w' = trace w @ [Alloc m (Some q),
            Xmit HCI_CMD_MARVELL_WRITE_BD_ADDRESS q b Hw_mrvl_config_start_cb True] \<or>
          trace w' = trace w @ [Alloc m (Some q),
            Xmit HCI_CMD_MARVELL_WRITE_BD_ADDRESS q b Hw_mrvl_config_start_cb False,
            Dealloc q, Fwcfg BT_VND_OP_RESULT_FAIL])))"
proof -
  let ?t = "take 2 (write_bd_address w) @ rev (vnd_local_bd_addr w)"
  let ?w1 = "w\<lparr>write_bd_address := ?t\<rparr>"
  have l8: "length (write_bd_address w) = 8" and l6: "length (vnd_local_bd_addr w) = 6"
    using ok by (simp_all add: globals_ok_def)
  have pop: "populate_bd_addr_params (write_bd_address w) 2 (vnd_local_bd_addr w) = Inr ?t"
    by (rule populate_bd_addr_params_eq [OF l8 l6])
  have cb1: "bt_vendor_cbacks ?w1 = Some cb" using cb by simp
  have len: "unat WRITE_BD_ADDRESS_SIZE \<le> length (write_bd_address ?w1)"
    using l8 l6 by (simp add: WRITE_BD_ADDRESS_SIZE_def)
  have tk: "take (unat WRITE_BD_ADDRESS_SIZE) (write_bd_address ?w1) = ?t"
    using l8 l6 by (simp add: WRITE_BD_ADDRESS_SIZE_def)
  show ?thesis
    using fw_send_tail [OF cb1 len, of HCI_CMD_MARVELL_WRITE_BD_ADDRESS] cb
    unfolding tk
    by (simp add: hw_mrvl_config_start_def pop Let_def)
qed

subsection \<open>Event buffers that can be parsed\<close>

lemma parse_evt_buf_ok:
  "6 \<le> length (body e) \<Longrightarrow> \<exists>ev. parse_evt_buf e z = Inr ev"
  by (simp add: parse_evt_buf_def STREAM_TO_UINT16_def HCI_EVT_CMD_CMPL_OPCODE_def)

lemma completed_SomeD:
  "completed e = Some c \<Longrightarrow>
   \<exists>ev. parse_evt_buf e \<lparr>cmd = 0, cmd_ret_param = 0\<rparr> = Inr ev \<and> cmd ev = c"
  by (auto simp: completed_def split: sum.splits)

section \<open>The command builder and the event parser\<close>

text \<open>
  C3. For every opcode and every payload of \<open>pl_len\<close> bytes, \<open>build_cmd_buf\<close>
  returns; it returns null exactly when no callback table is registered or the allocator
  returns null; otherwise the buffer it returns holds the low byte of the opcode, the
  high byte of the opcode, the byte \<open>pl_len\<close> and then the payload, and its \<open>len\<close>
  field is \<open>3 + pl_len\<close>.
\<close>

theorem build_cmd_buf_result:
  assumes "length payload = unat pl_len"
  shows "\<exists>r w'. build_cmd_buf opcode pl_len payload w = Inr (r, w') \<and>
     ((r = None) =
        (bt_vendor_cbacks w = None \<or>
         (\<exists>cb. bt_vendor_cbacks w = Some cb \<and>
            fst (alloc cb (BT_HC_HDR_SIZE w + (3 + length payload)) (host w)) = None))) \<and>
     (case r of
        None \<Rightarrow> True
      | Some p \<Rightarrow>
          (\<exists>b. heap w' p = Some b \<and>
             body b = [word_of_nat (unat opcode mod 256), word_of_nat (unat opcode div 256),
                       pl_len] @ payload \<and>
             unat (len b) = 3 + length payload))"
proof (cases "bt_vendor_cbacks w")
  case None
  then show ?thesis by (simp add: build_no_table)
next
  case (Some cb)
  let ?m = "BT_HC_HDR_SIZE w + (3 + unat pl_len)"
  obtain r h where a: "alloc cb ?m (host w) = (r, h)" by (cases "alloc cb ?m (host w)")
  have lo: "ucast opcode = (word_of_nat (unat opcode mod 256) :: u8)"
    by (simp add: word_unat_eq_iff unat_low_byte unat_of_nat)
  have hi: "ucast (drop_bit 8 opcode) = (word_of_nat (unat opcode div 256) :: u8)"
  proof -
    have "unat opcode < 65536" using unsigned_less [of opcode] by simp
    then have "unat opcode div 256 < 256" by simp
    then show ?thesis
      unfolding word_unat_eq_iff unat_high_byte unat_of_nat by simp
  qed
  show ?thesis
  proof (cases r)
    case None
    with Some a assms show ?thesis by (simp add: build_no_mem)
  next
    case (Some p)
    have le: "unat pl_len \<le> length payload" using assms by simp
    note b = build_ok [OF \<open>bt_vendor_cbacks w = Some cb\<close> a [unfolded Some] le]
    show ?thesis
      using \<open>bt_vendor_cbacks w = Some cb\<close> a Some assms
      by (simp add: b UINT16_TO_STREAM_def lo hi unat_cmd_len)
  qed
qed

theorem build_cmd_buf_result_witness:
  "length [0x03, 0x00 :: u8] = unat (2 :: u8) \<and>
   (\<exists>w'. build_cmd_buf 0xFC29 2 [0x03, 0x00]
            (at_load\<lparr>bt_vendor_cbacks := Some willing_host\<rparr>) = Inr (Some 100, w') \<and>
      map_option body (heap w' 100) = Some [0x29, 0xFC, 0x02, 0x03, 0x00] \<and>
      map_option len (heap w' 100) = Some 5)"
proof -
  have h: "length [0x03, 0x00 :: u8] = unat (2 :: u8)" by simp
  from build_cmd_buf_result [OF h, of "0xFC29" "at_load\<lparr>bt_vendor_cbacks := Some willing_host\<rparr>"]
  obtain r w' where "build_cmd_buf 0xFC29 2 [0x03, 0x00]
      (at_load\<lparr>bt_vendor_cbacks := Some willing_host\<rparr>) = Inr (r, w')" by blast
  then show ?thesis using h
    by (auto simp: build_cmd_buf_def call_alloc_def at_load_def willing_host_def
        HCI_CMD_PREAMBLE_SIZE_def UINT16_TO_STREAM_def)
qed

text \<open>
  C9. For every event buffer with at least six bytes after the header,
  \<open>parse_evt_buf\<close> sets \<open>cmd\<close> to the 16-bit value whose low byte is the byte at
  offset 3 and whose high byte is the byte at offset 4, and \<open>cmd_ret_param\<close> to the
  byte at offset 5, whatever the record held before.
\<close>

theorem parse_evt_buf_fields:
  assumes "6 \<le> length (body b)"
  shows "\<exists>v. parse_evt_buf b evt_params = Inr \<lparr>cmd = v, cmd_ret_param = body b ! 5\<rparr> \<and>
     unat v = unat (body b ! 3) + 256 * unat (body b ! 4)"
  using assms
  by (cases evt_params)
    (simp add: parse_evt_buf_def STREAM_TO_UINT16_def HCI_EVT_CMD_CMPL_OPCODE_def unat_le16)

theorem parse_evt_buf_fields_witness:
  "6 \<le> length (body (cmd_cmpl_evt 0xFC22 0x0C)) \<and>
   parse_evt_buf (cmd_cmpl_evt 0xFC22 0x0C) \<lparr>cmd = 0xFFFF, cmd_ret_param = 0xFF\<rparr> =
     Inr \<lparr>cmd = 0xFC22, cmd_ret_param = 0x0C\<rparr>"
proof -
  have h: "6 \<le> length (body (cmd_cmpl_evt 0xFC22 0x0C))" by (simp add: cmd_cmpl_evt_def)
  from parse_evt_buf_fields [OF h, of "\<lparr>cmd = 0xFFFF, cmd_ret_param = 0xFF\<rparr>"]
  obtain v where p: "parse_evt_buf (cmd_cmpl_evt 0xFC22 0x0C) \<lparr>cmd = 0xFFFF, cmd_ret_param = 0xFF\<rparr> =
      Inr \<lparr>cmd = v, cmd_ret_param = body (cmd_cmpl_evt 0xFC22 0x0C) ! 5\<rparr>"
    and v: "unat v = unat (body (cmd_cmpl_evt 0xFC22 0x0C) ! 3) +
      256 * unat (body (cmd_cmpl_evt 0xFC22 0x0C) ! 4)" by blast
  from v have "unat v = unat (0xFC22 :: u16)" by (simp add: cmd_cmpl_evt_def)
  then have "v = 0xFC22" by (simp only: word_unat_eq_iff)
  with p h show ?thesis by (simp add: cmd_cmpl_evt_def)
qed

section \<open>The firmware chain\<close>

text \<open>
  C2. For every six-byte address \<open>A\<close> given to \<open>bt_vnd_mrvl_if_init\<close>,
  \<open>hw_mrvl_config_start\<close> either gets no buffer from the allocator, or hands to the
  transport a write-device-address command whose bytes are the opcode 0xFC22 (low byte
  first), the length 8, and the payload 0xFE, 0x06, \<open>A[5]\<close>, ..., \<open>A[0]\<close>.
\<close>

theorem write_bd_address_cmd:
  assumes "length A = 6"
    and "globals_ok w0"
    and "take 2 (write_bd_address w0) = [0xFE, 0x06]"
    and "bt_vnd_mrvl_if_init (Some cb) A w0 = Inr w"
  shows "\<exists>w' evs. hw_mrvl_config_start w = Inr w' \<and> trace w' = trace w @ evs \<and>
     ((\<exists>m. evs = [Alloc m None, Fwcfg BT_VND_OP_RESULT_FAIL]) \<or>
      (\<exists>m q b r rest.
         evs = Alloc m (Some q) # Xmit 0xFC22 q b Hw_mrvl_config_start_cb r # rest \<and>
         take 3 (body b) = [0x22, 0xFC, 0x08] \<and>
         drop 3 (body b) = [0xFE, 0x06, A ! 5, A ! 4, A ! 3, A ! 2, A ! 1, A ! 0]))"
proof -
  from list6 [OF assms(1)] obtain a0 a1 a2 a3 a4 a5
    where A: "A = [a0, a1, a2, a3, a4, a5]" by blast
  have w: "w = w0\<lparr>bt_vendor_cbacks := Some cb, vnd_local_bd_addr := A\<rparr>"
    using assms(1,4) by (simp add: bt_vnd_mrvl_if_init_def)
  have cb: "bt_vendor_cbacks w = Some cb" by (simp add: w)
  have ok: "globals_ok w" using assms(1,2) by (simp add: w globals_ok_def)
  have t: "take 2 (write_bd_address w) @ rev (vnd_local_bd_addr w) =
      [0xFE, 0x06, a5, a4, a3, a2, a1, a0]"
    using assms(3) by (simp add: w A)
  from config_start_shape [OF cb ok] obtain w' m where
    r: "hw_mrvl_config_start w = Inr w'" and
    s: "trace w' = trace w @ [Alloc m None, Fwcfg BT_VND_OP_RESULT_FAIL] \<or>
      (\<exists>q b. body b = UINT16_TO_STREAM HCI_CMD_MARVELL_WRITE_BD_ADDRESS @ [WRITE_BD_ADDRESS_SIZE] @
                 take 2 (write_bd_address w) @ rev (vnd_local_bd_addr w) \<and>
         (trace w' = trace w @ [Alloc m (Some q),
            Xmit HCI_CMD_MARVELL_WRITE_BD_ADDRESS q b Hw_mrvl_config_start_cb True] \<or>
          trace w' = trace w @ [Alloc m (Some q),
            Xmit HCI_CMD_MARVELL_WRITE_BD_ADDRESS q b Hw_mrvl_config_start_cb False,
            Dealloc q, Fwcfg BT_VND_OP_RESULT_FAIL]))"
    by blast
  have bytes: "UINT16_TO_STREAM HCI_CMD_MARVELL_WRITE_BD_ADDRESS @ [WRITE_BD_ADDRESS_SIZE] =
      [0x22, 0xFC, 0x08]"
    by (simp add: UINT16_TO_STREAM_def HCI_CMD_MARVELL_WRITE_BD_ADDRESS_def
        WRITE_BD_ADDRESS_SIZE_def)
  from s show ?thesis
  proof (elim disjE exE conjE)
    assume "trace w' = trace w @ [Alloc m None, Fwcfg BT_VND_OP_RESULT_FAIL]"
    with r show ?thesis by blast
  next
    fix q b
    assume b: "body b = UINT16_TO_STREAM HCI_CMD_MARVELL_WRITE_BD_ADDRESS @ [WRITE_BD_ADDRESS_SIZE] @
        take 2 (write_bd_address w) @ rev (vnd_local_bd_addr w)"
      and tr: "trace w' = trace w @ [Alloc m (Some q),
        Xmit HCI_CMD_MARVELL_WRITE_BD_ADDRESS q b Hw_mrvl_config_start_cb True]"
    have "body b = [0x22, 0xFC, 0x08, 0xFE, 0x06, a5, a4, a3, a2, a1, a0]"
      using b bytes unfolding t by simp
    then have "take 3 (body b) = [0x22, 0xFC, 0x08] \<and>
        drop 3 (body b) = [0xFE, 0x06, A ! 5, A ! 4, A ! 3, A ! 2, A ! 1, A ! 0]"
      by (simp add: A)
    with r tr show ?thesis
      by (simp add: HCI_CMD_MARVELL_WRITE_BD_ADDRESS_def) blast
  next
    fix q b
    assume b: "body b = UINT16_TO_STREAM HCI_CMD_MARVELL_WRITE_BD_ADDRESS @ [WRITE_BD_ADDRESS_SIZE] @
        take 2 (write_bd_address w) @ rev (vnd_local_bd_addr w)"
      and tr: "trace w' = trace w @ [Alloc m (Some q),
        Xmit HCI_CMD_MARVELL_WRITE_BD_ADDRESS q b Hw_mrvl_config_start_cb False,
        Dealloc q, Fwcfg BT_VND_OP_RESULT_FAIL]"
    have "body b = [0x22, 0xFC, 0x08, 0xFE, 0x06, a5, a4, a3, a2, a1, a0]"
      using b bytes unfolding t by simp
    then have "take 3 (body b) = [0x22, 0xFC, 0x08] \<and>
        drop 3 (body b) = [0xFE, 0x06, A ! 5, A ! 4, A ! 3, A ! 2, A ! 1, A ! 0]"
      by (simp add: A)
    with r tr show ?thesis
      by (simp add: HCI_CMD_MARVELL_WRITE_BD_ADDRESS_def) blast
  qed
qed

theorem write_bd_address_cmd_witness:
  "length [0x11, 0x22, 0x33, 0x44, 0x55, 0x66 :: u8] = 6 \<and>
   globals_ok at_load \<and>
   take 2 (write_bd_address at_load) = [0xFE, 0x06] \<and>
   bt_vnd_mrvl_if_init (Some willing_host) [0x11, 0x22, 0x33, 0x44, 0x55, 0x66] at_load =
     Inr (ready\<lparr>vnd_local_bd_addr := [0x11, 0x22, 0x33, 0x44, 0x55, 0x66]\<rparr>) \<and>
   map_sum id trace
     (hw_mrvl_config_start (ready\<lparr>vnd_local_bd_addr := [0x11, 0x22, 0x33, 0x44, 0x55, 0x66]\<rparr>)) =
     Inr [Alloc 19 (Some 100),
          Xmit 0xFC22 100
            \<lparr>event = 0x2000, len = 11, offset = 0, layer_specific = 0,
             body = [0x22, 0xFC, 0x08, 0xFE, 0x06, 0x66, 0x55, 0x44, 0x33, 0x22, 0x11]\<rparr>
            Hw_mrvl_config_start_cb True]"
proof -
  let ?A = "[0x11, 0x22, 0x33, 0x44, 0x55, 0x66 :: u8]"
  let ?w = "ready\<lparr>vnd_local_bd_addr := ?A\<rparr>"
  have h1: "length ?A = 6" by simp
  have h2: "globals_ok at_load" by (simp add: globals_ok_def at_load_def)
  have h3: "take 2 (write_bd_address at_load) = [0xFE, 0x06]" by (simp add: at_load_def)
  have h4: "bt_vnd_mrvl_if_init (Some willing_host) ?A at_load = Inr ?w"
    by (simp add: bt_vnd_mrvl_if_init_def ready_def)
  from write_bd_address_cmd [OF h1 h2 h3 h4] obtain w' evs
    where r: "hw_mrvl_config_start ?w = Inr w'" and tr: "trace w' = trace ?w @ evs" by blast
  have "map_sum id trace (hw_mrvl_config_start ?w) =
     Inr [Alloc 19 (Some 100),
          Xmit 0xFC22 100
            \<lparr>event = 0x2000, len = 11, offset = 0, layer_specific = 0,
             body = [0x22, 0xFC, 0x08, 0xFE, 0x06, 0x66, 0x55, 0x44, 0x33, 0x22, 0x11]\<rparr>
            Hw_mrvl_config_start_cb True]"
    by (simp add: hw_mrvl_config_start_def ready_def at_load_def willing_host_def
        build_cmd_buf_def populate_bd_addr_params_def opcode_defs size_defs call_defs
        HCI_CMD_PREAMBLE_SIZE_def UINT16_TO_STREAM_def)
  with h1 h2 h3 h4 r show ?thesis by simp
qed

text \<open>
  C10. A call of \<open>hw_mrvl_config_start\<close> with a callback table registered returns, and
  after it the template \<open>write_bd_address\<close> holds its two first bytes as before,
  followed by the device address in reversed order; the four other templates, the
  device address and the callback table are as before.
\<close>

theorem config_start_frame:
  assumes "bt_vendor_cbacks w = Some cb" and "globals_ok w"
  shows "\<exists>w'. hw_mrvl_config_start w = Inr w' \<and>
     write_bd_address w' = take 2 (write_bd_address w) @ rev (vnd_local_bd_addr w) \<and>
     write_pcm_settings w' = write_pcm_settings w \<and>
     write_pcm_sync_settings w' = write_pcm_sync_settings w \<and>
     write_pcm_link_settings w' = write_pcm_link_settings w \<and>
     set_sco_data_path w' = set_sco_data_path w \<and>
     vnd_local_bd_addr w' = vnd_local_bd_addr w \<and>
     bt_vendor_cbacks w' = bt_vendor_cbacks w"
proof -
  from config_start_shape [OF assms] obtain w' where
    "hw_mrvl_config_start w = Inr w'" and
    "same_globals
       (w\<lparr>write_bd_address := take 2 (write_bd_address w) @ rev (vnd_local_bd_addr w)\<rparr>) w'"
    by blast
  then show ?thesis by (simp add: same_globals_def)
qed

theorem config_start_frame_witness:
  "bt_vendor_cbacks (ready\<lparr>vnd_local_bd_addr := [0x11, 0x22, 0x33, 0x44, 0x55, 0x66]\<rparr>) =
     Some willing_host \<and>
   globals_ok (ready\<lparr>vnd_local_bd_addr := [0x11, 0x22, 0x33, 0x44, 0x55, 0x66]\<rparr>) \<and>
   map_sum id write_bd_address
     (hw_mrvl_config_start (ready\<lparr>vnd_local_bd_addr := [0x11, 0x22, 0x33, 0x44, 0x55, 0x66]\<rparr>)) =
     Inr [0xFE, 0x06, 0x66, 0x55, 0x44, 0x33, 0x22, 0x11] \<and>
   map_sum id write_pcm_sync_settings
     (hw_mrvl_config_start (ready\<lparr>vnd_local_bd_addr := [0x11, 0x22, 0x33, 0x44, 0x55, 0x66]\<rparr>)) =
     Inr [0x03, 0x00, 0x03]"
proof -
  let ?w = "ready\<lparr>vnd_local_bd_addr := [0x11, 0x22, 0x33, 0x44, 0x55, 0x66]\<rparr>"
  have h1: "bt_vendor_cbacks ?w = Some willing_host" by (simp add: ready_def)
  have h2: "globals_ok ?w" by (simp add: globals_ok_def ready_def at_load_def)
  from config_start_frame [OF h1 h2] obtain w' where
    r: "hw_mrvl_config_start ?w = Inr w'" and
    a: "write_bd_address w' = take 2 (write_bd_address ?w) @ rev (vnd_local_bd_addr ?w)" and
    b: "write_pcm_sync_settings w' = write_pcm_sync_settings ?w"
    by blast
  from a have "write_bd_address w' = [0xFE, 0x06, 0x66, 0x55, 0x44, 0x33, 0x22, 0x11]"
    by (simp add: ready_def at_load_def)
  moreover from b have "write_pcm_sync_settings w' = [0x03, 0x00, 0x03]"
    by (simp add: ready_def at_load_def)
  ultimately show ?thesis using h1 h2 r by simp
qed

text \<open>
  C8. The outcome of the firmware chain does not depend on the status byte of the
  event: for two event buffers in which \<open>parse_evt_buf\<close> finds the same opcode,
  \<open>hw_mrvl_config_start_cb\<close> makes the same calls with the same arguments and leaves
  the host in the same state. With a callback table registered the calls are the release
  of the event buffer and \<open>fwcfg_cb\<close>, with SUCCESS exactly when the opcode is
  0xFC22.
\<close>

theorem fwcfg_outcome_ignores_status:
  assumes "completed e1 = Some c" and "completed e2 = Some c"
  shows "\<exists>u1 u2.
     hw_mrvl_config_start_cb (Some p) (w\<lparr>heap := (heap w)(p \<mapsto> e1)\<rparr>) = Inr u1 \<and>
     hw_mrvl_config_start_cb (Some p) (w\<lparr>heap := (heap w)(p \<mapsto> e2)\<rparr>) = Inr u2 \<and>
     trace u1 = trace u2 \<and> host u1 = host u2 \<and>
     trace u1 = trace w @
       (case bt_vendor_cbacks w of
          None \<Rightarrow> []
        | Some cb \<Rightarrow>
            [Dealloc p,
             Fwcfg (if c = HCI_CMD_MARVELL_WRITE_BD_ADDRESS then BT_VND_OP_RESULT_SUCCESS
                    else BT_VND_OP_RESULT_FAIL)])"
proof -
  from completed_SomeD [OF assms(1)] obtain ev1 where
    p1: "parse_evt_buf e1 \<lparr>cmd = 0, cmd_ret_param = 0\<rparr> = Inr ev1" and c1: "cmd ev1 = c" by blast
  from completed_SomeD [OF assms(2)] obtain ev2 where
    p2: "parse_evt_buf e2 \<lparr>cmd = 0, cmd_ret_param = 0\<rparr> = Inr ev2" and c2: "cmd ev2 = c" by blast
  have h1: "heap (w\<lparr>heap := (heap w)(p \<mapsto> e1)\<rparr>) p = Some e1" by simp
  have h2: "heap (w\<lparr>heap := (heap w)(p \<mapsto> e2)\<rparr>) p = Some e2" by simp
  show ?thesis
    unfolding config_start_cb_eq [OF h1 p1] config_start_cb_eq [OF h2 p2] c1 c2
    by (simp add: call_fwcfg_cb_def call_dealloc_def split: option.split)
qed

theorem fwcfg_outcome_ignores_status_witness:
  "completed (cmd_cmpl_evt 0xFC22 0x00) = Some 0xFC22 \<and>
   completed (cmd_cmpl_evt 0xFC22 0x0C) = Some 0xFC22 \<and>
   map_sum id trace
     (hw_mrvl_config_start_cb (Some 7)
        (ready\<lparr>heap := (heap ready)(7 \<mapsto> cmd_cmpl_evt 0xFC22 0x00)\<rparr>)) =
     Inr [Dealloc 7, Fwcfg BT_VND_OP_RESULT_SUCCESS] \<and>
   map_sum id trace
     (hw_mrvl_config_start_cb (Some 7)
        (ready\<lparr>heap := (heap ready)(7 \<mapsto> cmd_cmpl_evt 0xFC22 0x0C)\<rparr>)) =
     Inr [Dealloc 7, Fwcfg BT_VND_OP_RESULT_SUCCESS]"
proof -
  have h1: "completed (cmd_cmpl_evt 0xFC22 0x00) = Some 0xFC22"
    by (simp add: completed_def parse_evt_buf_def cmd_cmpl_evt_def STREAM_TO_UINT16_def
        HCI_EVT_CMD_CMPL_OPCODE_def)
  have h2: "completed (cmd_cmpl_evt 0xFC22 0x0C) = Some 0xFC22"
    by (simp add: completed_def parse_evt_buf_def cmd_cmpl_evt_def STREAM_TO_UINT16_def
        HCI_EVT_CMD_CMPL_OPCODE_def)
  have tr: "trace ready = []" and cb: "bt_vendor_cbacks ready = Some willing_host"
    by (simp_all add: ready_def at_load_def)
  from fwcfg_outcome_ignores_status [OF h1 h2, of 7 ready] obtain u1 u2 where
    "hw_mrvl_config_start_cb (Some 7)
       (ready\<lparr>heap := (heap ready)(7 \<mapsto> cmd_cmpl_evt 0xFC22 0x00)\<rparr>) = Inr u1"
    "hw_mrvl_config_start_cb (Some 7)
       (ready\<lparr>heap := (heap ready)(7 \<mapsto> cmd_cmpl_evt 0xFC22 0x0C)\<rparr>) = Inr u2"
    "trace u1 = trace u2"
    "trace u1 = trace ready @
       (case bt_vendor_cbacks ready of
          None \<Rightarrow> []
        | Some cb \<Rightarrow>
            [Dealloc 7,
             Fwcfg (if (0xFC22 :: u16) = HCI_CMD_MARVELL_WRITE_BD_ADDRESS
                    then BT_VND_OP_RESULT_SUCCESS else BT_VND_OP_RESULT_FAIL)])"
    by blast
  then show ?thesis using h1 h2
    by (simp add: tr cb HCI_CMD_MARVELL_WRITE_BD_ADDRESS_def)
qed

section \<open>A send that the transport refuses\<close>

text \<open>
  C4. In each of the three functions that send a command (\<open>hw_mrvl_config_start\<close>,
  \<open>hw_mrvl_sco_config\<close>, and \<open>hw_mrvl_sco_config_cb\<close> for each of the three
  completed opcodes that have a successor), if the allocator hands out a buffer at
  \<open>q\<close> and \<open>xmit_cb\<close>, called with the command built there, returns false, then the
  function returns, and the calls it has made are, after the allocation and the refused
  send, the release of \<open>q\<close> and the result callback of the chain with FAIL, and nothing
  else: the failure is reported in the same invocation, and the buffer is no longer
  allocated.
\<close>

theorem refused_send_fails_at_once:
  assumes "bt_vendor_cbacks w = Some cb" and "globals_ok w"
  shows "(\<forall>q h h'.
            alloc cb (BT_HC_HDR_SIZE w + (3 + unat WRITE_BD_ADDRESS_SIZE)) (host w) = (Some q, h) \<and>
            xmit_cb cb HCI_CMD_MARVELL_WRITE_BD_ADDRESS q
              (cmd_buf w HCI_CMD_MARVELL_WRITE_BD_ADDRESS WRITE_BD_ADDRESS_SIZE
                 (take 2 (write_bd_address w) @ rev (vnd_local_bd_addr w)))
              Hw_mrvl_config_start_cb h = (False, h') \<longrightarrow>
            (\<exists>w'. hw_mrvl_config_start w = Inr w' \<and> heap w' q = None \<and>
               trace w' = trace w @
                 [Alloc (BT_HC_HDR_SIZE w + (3 + unat WRITE_BD_ADDRESS_SIZE)) (Some q),
                  Xmit HCI_CMD_MARVELL_WRITE_BD_ADDRESS q
                    (cmd_buf w HCI_CMD_MARVELL_WRITE_BD_ADDRESS WRITE_BD_ADDRESS_SIZE
                       (take 2 (write_bd_address w) @ rev (vnd_local_bd_addr w)))
                    Hw_mrvl_config_start_cb False,
                  Dealloc q, Fwcfg BT_VND_OP_RESULT_FAIL])) \<and>
         (\<forall>q h h'.
            alloc cb (BT_HC_HDR_SIZE w + (3 + unat WRITE_PCM_SETTINGS_SIZE)) (host w) = (Some q, h) \<and>
            xmit_cb cb HCI_CMD_MARVELL_WRITE_PCM_SETTINGS q
              (cmd_buf w HCI_CMD_MARVELL_WRITE_PCM_SETTINGS WRITE_PCM_SETTINGS_SIZE
                 (write_pcm_settings w))
              Hw_mrvl_sco_config_cb h = (False, h') \<longrightarrow>
            (\<exists>w'. hw_mrvl_sco_config w = Inr w' \<and> heap w' q = None \<and>
               trace w' = trace w @
                 [Alloc (BT_HC_HDR_SIZE w + (3 + unat WRITE_PCM_SETTINGS_SIZE)) (Some q),
                  Xmit HCI_CMD_MARVELL_WRITE_PCM_SETTINGS q
                    (cmd_buf w HCI_CMD_MARVELL_WRITE_PCM_SETTINGS WRITE_PCM_SETTINGS_SIZE
                       (write_pcm_settings w))
                    Hw_mrvl_sco_config_cb False,
                  Dealloc q, Scocfg BT_VND_OP_RESULT_FAIL])) \<and>
         (\<forall>(c, c', n, pl) \<in> set
              [(HCI_CMD_MARVELL_WRITE_PCM_SETTINGS, HCI_CMD_MARVELL_WRITE_PCM_SYNC_SETTINGS,
                WRITE_PCM_SYNC_SETTINGS_SIZE, write_pcm_sync_settings w),
               (HCI_CMD_MARVELL_WRITE_PCM_SYNC_SETTINGS, HCI_CMD_MARVELL_WRITE_PCM_LINK_SETTINGS,
                WRITE_PCM_LINK_SETTINGS_SIZE, write_pcm_link_settings w),
               (HCI_CMD_MARVELL_WRITE_PCM_LINK_SETTINGS, HCI_CMD_MARVELL_SET_SCO_DATA_PATH,
                SET_SCO_DATA_PATH_SIZE, set_sco_data_path w)].
            \<forall>p e q h h'.
              heap w p = Some e \<and> completed e = Some c \<and>
              alloc cb (BT_HC_HDR_SIZE w + (3 + unat n)) (dealloc cb p (host w)) = (Some q, h) \<and>
              xmit_cb cb c' q (cmd_buf w c' n pl) Hw_mrvl_sco_config_cb h = (False, h') \<longrightarrow>
              (\<exists>w'. hw_mrvl_sco_config_cb (Some p) w = Inr w' \<and> heap w' q = None \<and>
                 trace w' = trace w @
                   [Dealloc p, Alloc (BT_HC_HDR_SIZE w + (3 + unat n)) (Some q),
                    Xmit c' q (cmd_buf w c' n pl) Hw_mrvl_sco_config_cb False,
                    Dealloc q, Scocfg BT_VND_OP_RESULT_FAIL]))"
proof (intro conjI)
  have l8: "length (write_bd_address w) = 8" and l6: "length (vnd_local_bd_addr w) = 6"
    using assms(2) by (simp_all add: globals_ok_def)
  let ?t = "take 2 (write_bd_address w) @ rev (vnd_local_bd_addr w)"
  let ?w1 = "w\<lparr>write_bd_address := ?t\<rparr>"
  have pop: "populate_bd_addr_params (write_bd_address w) 2 (vnd_local_bd_addr w) = Inr ?t"
    by (rule populate_bd_addr_params_eq [OF l8 l6])
  have cb1: "bt_vendor_cbacks ?w1 = Some cb" using assms(1) by simp
  have len: "unat WRITE_BD_ADDRESS_SIZE \<le> length (write_bd_address ?w1)"
    using l8 l6 by (simp add: WRITE_BD_ADDRESS_SIZE_def)
  show "\<forall>q h h'.
            alloc cb (BT_HC_HDR_SIZE w + (3 + unat WRITE_BD_ADDRESS_SIZE)) (host w) = (Some q, h) \<and>
            xmit_cb cb HCI_CMD_MARVELL_WRITE_BD_ADDRESS q
              (cmd_buf w HCI_CMD_MARVELL_WRITE_BD_ADDRESS WRITE_BD_ADDRESS_SIZE ?t)
              Hw_mrvl_config_start_cb h = (False, h') \<longrightarrow>
            (\<exists>w'. hw_mrvl_config_start w = Inr w' \<and> heap w' q = None \<and>
               trace w' = trace w @
                 [Alloc (BT_HC_HDR_SIZE w + (3 + unat WRITE_BD_ADDRESS_SIZE)) (Some q),
                  Xmit HCI_CMD_MARVELL_WRITE_BD_ADDRESS q
                    (cmd_buf w HCI_CMD_MARVELL_WRITE_BD_ADDRESS WRITE_BD_ADDRESS_SIZE ?t)
                    Hw_mrvl_config_start_cb False,
                  Dealloc q, Fwcfg BT_VND_OP_RESULT_FAIL])"
  proof (intro allI impI, elim conjE)
    fix q h h'
    assume a: "alloc cb (BT_HC_HDR_SIZE w + (3 + unat WRITE_BD_ADDRESS_SIZE)) (host w) = (Some q, h)"
      and x: "xmit_cb cb HCI_CMD_MARVELL_WRITE_BD_ADDRESS q
              (cmd_buf w HCI_CMD_MARVELL_WRITE_BD_ADDRESS WRITE_BD_ADDRESS_SIZE ?t)
              Hw_mrvl_config_start_cb h = (False, h')"
    have a1: "alloc cb (BT_HC_HDR_SIZE ?w1 + (3 + unat WRITE_BD_ADDRESS_SIZE)) (host ?w1) = (Some q, h)"
      using a by simp
    have b: "build_cmd_buf HCI_CMD_MARVELL_WRITE_BD_ADDRESS WRITE_BD_ADDRESS_SIZE ?t ?w1 =
        Inr (Some q,
          ?w1\<lparr>host := h,
            trace := trace w @ [Alloc (BT_HC_HDR_SIZE w + (3 + unat WRITE_BD_ADDRESS_SIZE)) (Some q)],
            heap := (heap w)(q \<mapsto>
              cmd_buf w HCI_CMD_MARVELL_WRITE_BD_ADDRESS WRITE_BD_ADDRESS_SIZE ?t)\<rparr>)"
      using build_ok_cmd_buf [OF cb1 a1 len, of HCI_CMD_MARVELL_WRITE_BD_ADDRESS]
      by (simp add: cmd_buf_def)
    show "\<exists>w'. hw_mrvl_config_start w = Inr w' \<and> heap w' q = None \<and>
               trace w' = trace w @
                 [Alloc (BT_HC_HDR_SIZE w + (3 + unat WRITE_BD_ADDRESS_SIZE)) (Some q),
                  Xmit HCI_CMD_MARVELL_WRITE_BD_ADDRESS q
                    (cmd_buf w HCI_CMD_MARVELL_WRITE_BD_ADDRESS WRITE_BD_ADDRESS_SIZE ?t)
                    Hw_mrvl_config_start_cb False,
                  Dealloc q, Fwcfg BT_VND_OP_RESULT_FAIL]"
      using x assms(1)
      by (simp add: hw_mrvl_config_start_def pop Let_def b call_xmit_cb_def call_fwcfg_cb_def
          call_dealloc_def)
  qed
next
  have len: "unat WRITE_PCM_SETTINGS_SIZE \<le> length (write_pcm_settings w)"
    using assms(2) by (simp add: globals_ok_def WRITE_PCM_SETTINGS_SIZE_def)
  show "\<forall>q h h'.
            alloc cb (BT_HC_HDR_SIZE w + (3 + unat WRITE_PCM_SETTINGS_SIZE)) (host w) = (Some q, h) \<and>
            xmit_cb cb HCI_CMD_MARVELL_WRITE_PCM_SETTINGS q
              (cmd_buf w HCI_CMD_MARVELL_WRITE_PCM_SETTINGS WRITE_PCM_SETTINGS_SIZE
                 (write_pcm_settings w))
              Hw_mrvl_sco_config_cb h = (False, h') \<longrightarrow>
            (\<exists>w'. hw_mrvl_sco_config w = Inr w' \<and> heap w' q = None \<and>
               trace w' = trace w @
                 [Alloc (BT_HC_HDR_SIZE w + (3 + unat WRITE_PCM_SETTINGS_SIZE)) (Some q),
                  Xmit HCI_CMD_MARVELL_WRITE_PCM_SETTINGS q
                    (cmd_buf w HCI_CMD_MARVELL_WRITE_PCM_SETTINGS WRITE_PCM_SETTINGS_SIZE
                       (write_pcm_settings w))
                    Hw_mrvl_sco_config_cb False,
                  Dealloc q, Scocfg BT_VND_OP_RESULT_FAIL])"
  proof (intro allI impI, elim conjE)
    fix q h h'
    assume a: "alloc cb (BT_HC_HDR_SIZE w + (3 + unat WRITE_PCM_SETTINGS_SIZE)) (host w) = (Some q, h)"
      and x: "xmit_cb cb HCI_CMD_MARVELL_WRITE_PCM_SETTINGS q
              (cmd_buf w HCI_CMD_MARVELL_WRITE_PCM_SETTINGS WRITE_PCM_SETTINGS_SIZE
                 (write_pcm_settings w))
              Hw_mrvl_sco_config_cb h = (False, h')"
    note b = build_ok_cmd_buf [OF assms(1) a len]
    show "\<exists>w'. hw_mrvl_sco_config w = Inr w' \<and> heap w' q = None \<and>
               trace w' = trace w @
                 [Alloc (BT_HC_HDR_SIZE w + (3 + unat WRITE_PCM_SETTINGS_SIZE)) (Some q),
                  Xmit HCI_CMD_MARVELL_WRITE_PCM_SETTINGS q
                    (cmd_buf w HCI_CMD_MARVELL_WRITE_PCM_SETTINGS WRITE_PCM_SETTINGS_SIZE
                       (write_pcm_settings w))
                    Hw_mrvl_sco_config_cb False,
                  Dealloc q, Scocfg BT_VND_OP_RESULT_FAIL]"
      using x assms(1)
      by (simp add: hw_mrvl_sco_config_def b call_xmit_cb_def call_scocfg_cb_def
          call_dealloc_def)
  qed
next
  have step: "\<exists>w'. hw_mrvl_sco_config_cb (Some p) w = Inr w' \<and> heap w' q = None \<and>
       trace w' = trace w @
         [Dealloc p, Alloc (BT_HC_HDR_SIZE w + (3 + unat n)) (Some q),
          Xmit c' q (cmd_buf w c' n pl) Hw_mrvl_sco_config_cb False,
          Dealloc q, Scocfg BT_VND_OP_RESULT_FAIL]"
    if row: "(c, c', n, pl) \<in> set
              [(HCI_CMD_MARVELL_WRITE_PCM_SETTINGS, HCI_CMD_MARVELL_WRITE_PCM_SYNC_SETTINGS,
                WRITE_PCM_SYNC_SETTINGS_SIZE, write_pcm_sync_settings w),
               (HCI_CMD_MARVELL_WRITE_PCM_SYNC_SETTINGS, HCI_CMD_MARVELL_WRITE_PCM_LINK_SETTINGS,
                WRITE_PCM_LINK_SETTINGS_SIZE, write_pcm_link_settings w),
               (HCI_CMD_MARVELL_WRITE_PCM_LINK_SETTINGS, HCI_CMD_MARVELL_SET_SCO_DATA_PATH,
                SET_SCO_DATA_PATH_SIZE, set_sco_data_path w)]"
      and e: "heap w p = Some e" and c: "completed e = Some c"
      and a: "alloc cb (BT_HC_HDR_SIZE w + (3 + unat n)) (dealloc cb p (host w)) = (Some q, h)"
      and x: "xmit_cb cb c' q (cmd_buf w c' n pl) Hw_mrvl_sco_config_cb h = (False, h')"
    for c c' n pl p e q h h'
  proof -
    let ?w1 = "call_dealloc cb p w"
    from completed_SomeD [OF c] obtain ev where
      ev: "parse_evt_buf e \<lparr>cmd = 0, cmd_ret_param = 0\<rparr> = Inr ev" and cev: "cmd ev = c" by blast
    have cb1: "bt_vendor_cbacks ?w1 = Some cb" using assms(1) by (simp add: call_dealloc_def)
    have a1: "alloc cb (BT_HC_HDR_SIZE ?w1 + (3 + unat n)) (host ?w1) = (Some q, h)"
      using a by (simp add: call_dealloc_def)
    have len: "unat n \<le> length pl"
      using row assms(2) by (auto simp: globals_ok_def size_defs)
    have cbuf: "cmd_buf ?w1 c' n pl = cmd_buf w c' n pl"
      by (simp add: cmd_buf_def call_dealloc_def)
    have b: "build_cmd_buf c' n pl ?w1 =
        Inr (Some q,
          ?w1\<lparr>host := h,
            trace := trace ?w1 @ [Alloc (BT_HC_HDR_SIZE ?w1 + (3 + unat n)) (Some q)],
            heap := (heap ?w1)(q \<mapsto> cmd_buf w c' n pl)\<rparr>)"
      using build_ok_cmd_buf [OF cb1 a1 len, of c'] unfolding cbuf .
    note x1 = x
    from row consider
      (r1) "c = HCI_CMD_MARVELL_WRITE_PCM_SETTINGS" "c' = HCI_CMD_MARVELL_WRITE_PCM_SYNC_SETTINGS"
        "n = WRITE_PCM_SYNC_SETTINGS_SIZE" "pl = write_pcm_sync_settings w"
      | (r2) "c = HCI_CMD_MARVELL_WRITE_PCM_SYNC_SETTINGS" "c' = HCI_CMD_MARVELL_WRITE_PCM_LINK_SETTINGS"
        "n = WRITE_PCM_LINK_SETTINGS_SIZE" "pl = write_pcm_link_settings w"
      | (r3) "c = HCI_CMD_MARVELL_WRITE_PCM_LINK_SETTINGS" "c' = HCI_CMD_MARVELL_SET_SCO_DATA_PATH"
        "n = SET_SCO_DATA_PATH_SIZE" "pl = set_sco_data_path w"
      by auto
    then show ?thesis
    proof cases
      case r1
      have pl1: "write_pcm_sync_settings ?w1 = pl" using r1 by (simp add: call_dealloc_def)
      show ?thesis
        using assms(1) e ev cev x1 b unfolding r1(1,2,3) pl1 [symmetric]
        by (simp add: hw_mrvl_sco_config_cb_def Let_def call_xmit_cb_def call_scocfg_cb_def)
          (simp add: call_dealloc_def)
    next
      case r2
      have pl1: "write_pcm_link_settings ?w1 = pl" using r2 by (simp add: call_dealloc_def)
      have ne: "HCI_CMD_MARVELL_WRITE_PCM_SYNC_SETTINGS \<noteq> HCI_CMD_MARVELL_WRITE_PCM_SETTINGS"
        by (simp add: opcode_defs)
      show ?thesis
        using assms(1) e ev cev x1 b ne unfolding r2(1,2,3) pl1 [symmetric]
        by (simp add: hw_mrvl_sco_config_cb_def Let_def call_xmit_cb_def call_scocfg_cb_def)
          (simp add: call_dealloc_def)
    next
      case r3
      have pl1: "set_sco_data_path ?w1 = pl" using r3 by (simp add: call_dealloc_def)
      have ne: "HCI_CMD_MARVELL_WRITE_PCM_LINK_SETTINGS \<noteq> HCI_CMD_MARVELL_WRITE_PCM_SETTINGS"
        "HCI_CMD_MARVELL_WRITE_PCM_LINK_SETTINGS \<noteq> HCI_CMD_MARVELL_WRITE_PCM_SYNC_SETTINGS"
        by (simp_all add: opcode_defs)
      show ?thesis
        using assms(1) e ev cev x1 b ne unfolding r3(1,2,3) pl1 [symmetric]
        by (simp add: hw_mrvl_sco_config_cb_def Let_def call_xmit_cb_def call_scocfg_cb_def)
          (simp add: call_dealloc_def)
    qed
  qed
  show "\<forall>(c, c', n, pl) \<in> set
              [(HCI_CMD_MARVELL_WRITE_PCM_SETTINGS, HCI_CMD_MARVELL_WRITE_PCM_SYNC_SETTINGS,
                WRITE_PCM_SYNC_SETTINGS_SIZE, write_pcm_sync_settings w),
               (HCI_CMD_MARVELL_WRITE_PCM_SYNC_SETTINGS, HCI_CMD_MARVELL_WRITE_PCM_LINK_SETTINGS,
                WRITE_PCM_LINK_SETTINGS_SIZE, write_pcm_link_settings w),
               (HCI_CMD_MARVELL_WRITE_PCM_LINK_SETTINGS, HCI_CMD_MARVELL_SET_SCO_DATA_PATH,
                SET_SCO_DATA_PATH_SIZE, set_sco_data_path w)].
            \<forall>p e q h h'.
              heap w p = Some e \<and> completed e = Some c \<and>
              alloc cb (BT_HC_HDR_SIZE w + (3 + unat n)) (dealloc cb p (host w)) = (Some q, h) \<and>
              xmit_cb cb c' q (cmd_buf w c' n pl) Hw_mrvl_sco_config_cb h = (False, h') \<longrightarrow>
              (\<exists>w'. hw_mrvl_sco_config_cb (Some p) w = Inr w' \<and> heap w' q = None \<and>
                 trace w' = trace w @
                   [Dealloc p, Alloc (BT_HC_HDR_SIZE w + (3 + unat n)) (Some q),
                    Xmit c' q (cmd_buf w c' n pl) Hw_mrvl_sco_config_cb False,
                    Dealloc q, Scocfg BT_VND_OP_RESULT_FAIL])"
    using step by (intro ballI) (simp only: split_paired_all prod.case, blast)
qed

theorem refused_send_fails_at_once_witness:
  "bt_vendor_cbacks (blocked\<lparr>heap := [7 \<mapsto> cmd_cmpl_evt 0xFC07 0]\<rparr>) = Some refusing_host \<and>
   globals_ok (blocked\<lparr>heap := [7 \<mapsto> cmd_cmpl_evt 0xFC07 0]\<rparr>) \<and>
   map_sum id trace (hw_mrvl_config_start (blocked\<lparr>heap := [7 \<mapsto> cmd_cmpl_evt 0xFC07 0]\<rparr>)) =
     Inr [Alloc 19 (Some 100),
          Xmit 0xFC22 100
            \<lparr>event = 0x2000, len = 11, offset = 0, layer_specific = 0,
             body = [0x22, 0xFC, 0x08, 0xFE, 0x06, 0, 0, 0, 0, 0, 0]\<rparr>
            Hw_mrvl_config_start_cb False,
          Dealloc 100, Fwcfg BT_VND_OP_RESULT_FAIL] \<and>
   map_sum id trace (hw_mrvl_sco_config (blocked\<lparr>heap := [7 \<mapsto> cmd_cmpl_evt 0xFC07 0]\<rparr>)) =
     Inr [Alloc 12 (Some 100),
          Xmit 0xFC07 100
            \<lparr>event = 0x2000, len = 4, offset = 0, layer_specific = 0,
             body = [0x07, 0xFC, 0x01, 0x02]\<rparr>
            Hw_mrvl_sco_config_cb False,
          Dealloc 100, Scocfg BT_VND_OP_RESULT_FAIL] \<and>
   map_sum id trace
     (hw_mrvl_sco_config_cb (Some 7) (blocked\<lparr>heap := [7 \<mapsto> cmd_cmpl_evt 0xFC07 0]\<rparr>)) =
     Inr [Dealloc 7, Alloc 14 (Some 100),
          Xmit 0xFC28 100
            \<lparr>event = 0x2000, len = 6, offset = 0, layer_specific = 0,
             body = [0x28, 0xFC, 0x03, 0x03, 0x00, 0x03]\<rparr>
            Hw_mrvl_sco_config_cb False,
          Dealloc 100, Scocfg BT_VND_OP_RESULT_FAIL]"
proof -
  let ?w = "blocked\<lparr>heap := [7 \<mapsto> cmd_cmpl_evt 0xFC07 0]\<rparr>"
  have h1: "bt_vendor_cbacks ?w = Some refusing_host" by (simp add: blocked_def)
  have h2: "globals_ok ?w" by (simp add: globals_ok_def blocked_def at_load_def)
  have tr: "trace ?w = []" by (simp add: blocked_def at_load_def)
  note main = refused_send_fails_at_once [OF h1 h2]
  have a1: "alloc refusing_host (BT_HC_HDR_SIZE ?w + (3 + unat WRITE_BD_ADDRESS_SIZE)) (host ?w) =
      (Some 100, 1)"
    by (simp add: refusing_host_def blocked_def at_load_def)
  have x1: "xmit_cb refusing_host HCI_CMD_MARVELL_WRITE_BD_ADDRESS 100
      (cmd_buf ?w HCI_CMD_MARVELL_WRITE_BD_ADDRESS WRITE_BD_ADDRESS_SIZE
         (take 2 (write_bd_address ?w) @ rev (vnd_local_bd_addr ?w)))
      Hw_mrvl_config_start_cb 1 = (False, 1)"
    by (simp add: refusing_host_def)
  from main [THEN conjunct1, rule_format, OF conjI [OF a1 x1]] obtain u1 where
    r1: "hw_mrvl_config_start ?w = Inr u1" and
    t1: "trace u1 = trace ?w @
       [Alloc (BT_HC_HDR_SIZE ?w + (3 + unat WRITE_BD_ADDRESS_SIZE)) (Some 100),
        Xmit HCI_CMD_MARVELL_WRITE_BD_ADDRESS 100
          (cmd_buf ?w HCI_CMD_MARVELL_WRITE_BD_ADDRESS WRITE_BD_ADDRESS_SIZE
             (take 2 (write_bd_address ?w) @ rev (vnd_local_bd_addr ?w)))
          Hw_mrvl_config_start_cb False,
        Dealloc 100, Fwcfg BT_VND_OP_RESULT_FAIL]"
    by blast
  have c1: "map_sum id trace (hw_mrvl_config_start ?w) =
     Inr [Alloc 19 (Some 100),
          Xmit 0xFC22 100
            \<lparr>event = 0x2000, len = 11, offset = 0, layer_specific = 0,
             body = [0x22, 0xFC, 0x08, 0xFE, 0x06, 0, 0, 0, 0, 0, 0]\<rparr>
            Hw_mrvl_config_start_cb False,
          Dealloc 100, Fwcfg BT_VND_OP_RESULT_FAIL]"
    unfolding r1 using t1
    by (simp add: tr cmd_buf_def blocked_def at_load_def opcode_defs size_defs
        HCI_CMD_PREAMBLE_SIZE_def UINT16_TO_STREAM_def)
  have a2: "alloc refusing_host (BT_HC_HDR_SIZE ?w + (3 + unat WRITE_PCM_SETTINGS_SIZE)) (host ?w) =
      (Some 100, 1)"
    by (simp add: refusing_host_def blocked_def at_load_def)
  have x2: "xmit_cb refusing_host HCI_CMD_MARVELL_WRITE_PCM_SETTINGS 100
      (cmd_buf ?w HCI_CMD_MARVELL_WRITE_PCM_SETTINGS WRITE_PCM_SETTINGS_SIZE (write_pcm_settings ?w))
      Hw_mrvl_sco_config_cb 1 = (False, 1)"
    by (simp add: refusing_host_def)
  from main [THEN conjunct2, THEN conjunct1, rule_format, OF conjI [OF a2 x2]] obtain u2 where
    r2: "hw_mrvl_sco_config ?w = Inr u2" and
    t2: "trace u2 = trace ?w @
       [Alloc (BT_HC_HDR_SIZE ?w + (3 + unat WRITE_PCM_SETTINGS_SIZE)) (Some 100),
        Xmit HCI_CMD_MARVELL_WRITE_PCM_SETTINGS 100
          (cmd_buf ?w HCI_CMD_MARVELL_WRITE_PCM_SETTINGS WRITE_PCM_SETTINGS_SIZE
             (write_pcm_settings ?w))
          Hw_mrvl_sco_config_cb False,
        Dealloc 100, Scocfg BT_VND_OP_RESULT_FAIL]"
    by blast
  have c2: "map_sum id trace (hw_mrvl_sco_config ?w) =
     Inr [Alloc 12 (Some 100),
          Xmit 0xFC07 100
            \<lparr>event = 0x2000, len = 4, offset = 0, layer_specific = 0,
             body = [0x07, 0xFC, 0x01, 0x02]\<rparr>
            Hw_mrvl_sco_config_cb False,
          Dealloc 100, Scocfg BT_VND_OP_RESULT_FAIL]"
    unfolding r2 using t2
    by (simp add: tr cmd_buf_def blocked_def at_load_def opcode_defs size_defs
        HCI_CMD_PREAMBLE_SIZE_def UINT16_TO_STREAM_def)
  have row: "(HCI_CMD_MARVELL_WRITE_PCM_SETTINGS, HCI_CMD_MARVELL_WRITE_PCM_SYNC_SETTINGS,
       WRITE_PCM_SYNC_SETTINGS_SIZE, write_pcm_sync_settings ?w) \<in> set
         [(HCI_CMD_MARVELL_WRITE_PCM_SETTINGS, HCI_CMD_MARVELL_WRITE_PCM_SYNC_SETTINGS,
           WRITE_PCM_SYNC_SETTINGS_SIZE, write_pcm_sync_settings ?w),
          (HCI_CMD_MARVELL_WRITE_PCM_SYNC_SETTINGS, HCI_CMD_MARVELL_WRITE_PCM_LINK_SETTINGS,
           WRITE_PCM_LINK_SETTINGS_SIZE, write_pcm_link_settings ?w),
          (HCI_CMD_MARVELL_WRITE_PCM_LINK_SETTINGS, HCI_CMD_MARVELL_SET_SCO_DATA_PATH,
           SET_SCO_DATA_PATH_SIZE, set_sco_data_path ?w)]"
    by simp
  have e3: "heap ?w 7 = Some (cmd_cmpl_evt 0xFC07 0)" by simp
  have k3: "completed (cmd_cmpl_evt 0xFC07 0) = Some HCI_CMD_MARVELL_WRITE_PCM_SETTINGS"
    by (simp add: completed_def parse_evt_buf_def cmd_cmpl_evt_def STREAM_TO_UINT16_def
        HCI_EVT_CMD_CMPL_OPCODE_def opcode_defs)
  have a3: "alloc refusing_host (BT_HC_HDR_SIZE ?w + (3 + unat WRITE_PCM_SYNC_SETTINGS_SIZE))
      (dealloc refusing_host 7 (host ?w)) = (Some 100, 1)"
    by (simp add: refusing_host_def blocked_def at_load_def)
  have x3: "xmit_cb refusing_host HCI_CMD_MARVELL_WRITE_PCM_SYNC_SETTINGS 100
      (cmd_buf ?w HCI_CMD_MARVELL_WRITE_PCM_SYNC_SETTINGS WRITE_PCM_SYNC_SETTINGS_SIZE
         (write_pcm_sync_settings ?w))
      Hw_mrvl_sco_config_cb 1 = (False, 1)"
    by (simp add: refusing_host_def)
  from bspec [OF main [THEN conjunct2, THEN conjunct2] row] e3 k3 a3 x3 obtain u3 where
    r3: "hw_mrvl_sco_config_cb (Some 7) ?w = Inr u3" and
    t3: "trace u3 = trace ?w @
       [Dealloc 7,
        Alloc (BT_HC_HDR_SIZE ?w + (3 + unat WRITE_PCM_SYNC_SETTINGS_SIZE)) (Some 100),
        Xmit HCI_CMD_MARVELL_WRITE_PCM_SYNC_SETTINGS 100
          (cmd_buf ?w HCI_CMD_MARVELL_WRITE_PCM_SYNC_SETTINGS WRITE_PCM_SYNC_SETTINGS_SIZE
             (write_pcm_sync_settings ?w))
          Hw_mrvl_sco_config_cb False,
        Dealloc 100, Scocfg BT_VND_OP_RESULT_FAIL]"
    by (simp only: prod.case) blast
  have c3: "map_sum id trace (hw_mrvl_sco_config_cb (Some 7) ?w) =
     Inr [Dealloc 7, Alloc 14 (Some 100),
          Xmit 0xFC28 100
            \<lparr>event = 0x2000, len = 6, offset = 0, layer_specific = 0,
             body = [0x28, 0xFC, 0x03, 0x03, 0x00, 0x03]\<rparr>
            Hw_mrvl_sco_config_cb False,
          Dealloc 100, Scocfg BT_VND_OP_RESULT_FAIL]"
    unfolding r3 using t3
    by (simp add: tr cmd_buf_def blocked_def at_load_def opcode_defs size_defs
        HCI_CMD_PREAMBLE_SIZE_def UINT16_TO_STREAM_def)
  from h1 h2 c1 c2 c3 show ?thesis by (intro conjI)
qed

section \<open>The completion callbacks\<close>

text \<open>
  C6, as the code has it. With a callback table registered, each of the two completion
  callbacks, called with an event buffer of at least six bytes, returns, and the first
  call it makes is the release of that buffer; the buffer is released once in the whole
  invocation.
\<close>

theorem event_buffer_freed_once:
  assumes "bt_vendor_cbacks w = Some cb" and "globals_ok w"
    and "heap w p = Some e" and "6 \<le> length (body e)"
  shows "(\<exists>w' evs. hw_mrvl_config_start_cb (Some p) w = Inr w' \<and> trace w' = trace w @ evs \<and>
            take 1 evs = [Dealloc p] \<and> frees p evs = 1) \<and>
         (\<exists>w' evs. hw_mrvl_sco_config_cb (Some p) w = Inr w' \<and> trace w' = trace w @ evs \<and>
            take 1 evs = [Dealloc p] \<and> frees p evs = 1)"
proof
  from parse_evt_buf_ok [OF assms(4)] obtain ev where
    ev: "parse_evt_buf e \<lparr>cmd = 0, cmd_ret_param = 0\<rparr> = Inr ev" by blast
  show "\<exists>w' evs. hw_mrvl_config_start_cb (Some p) w = Inr w' \<and> trace w' = trace w @ evs \<and>
            take 1 evs = [Dealloc p] \<and> frees p evs = 1"
    unfolding config_start_cb_eq [OF assms(3) ev]
    by (simp add: assms(1) call_fwcfg_cb_def call_dealloc_def)
  from sco_config_cb_shape [OF assms(1,2,3) ev] obtain w' where
    r: "hw_mrvl_sco_config_cb (Some p) w = Inr w'" and
    s: "if cmd ev = HCI_CMD_MARVELL_SET_SCO_DATA_PATH
      then trace w' = trace w @ [Dealloc p, Scocfg BT_VND_OP_RESULT_SUCCESS]
      else if cmd ev = HCI_CMD_MARVELL_WRITE_PCM_SETTINGS \<or>
              cmd ev = HCI_CMD_MARVELL_WRITE_PCM_SYNC_SETTINGS \<or>
              cmd ev = HCI_CMD_MARVELL_WRITE_PCM_LINK_SETTINGS
      then \<exists>m. trace w' = trace w @ [Dealloc p, Alloc m None, Scocfg BT_VND_OP_RESULT_FAIL] \<or>
        (\<exists>q b. trace w' = trace w @ [Dealloc p, Alloc m (Some q),
             Xmit (sco_next (cmd ev)) q b Hw_mrvl_sco_config_cb True]) \<or>
        (\<exists>q b. trace w' = trace w @ [Dealloc p, Alloc m (Some q),
             Xmit (sco_next (cmd ev)) q b Hw_mrvl_sco_config_cb False,
             Dealloc q, Scocfg BT_VND_OP_RESULT_FAIL])
      else trace w' = trace w @ [Dealloc p, Scocfg BT_VND_OP_RESULT_FAIL]"
    by blast
  from s show "\<exists>w' evs. hw_mrvl_sco_config_cb (Some p) w = Inr w' \<and> trace w' = trace w @ evs \<and>
            take 1 evs = [Dealloc p] \<and> frees p evs = 1"
    unfolding r by (auto split: if_splits)
qed

theorem event_buffer_freed_once_witness:
  "bt_vendor_cbacks (ready\<lparr>heap := [7 \<mapsto> cmd_cmpl_evt 0xFC28 0]\<rparr>) = Some willing_host \<and>
   globals_ok (ready\<lparr>heap := [7 \<mapsto> cmd_cmpl_evt 0xFC28 0]\<rparr>) \<and>
   heap (ready\<lparr>heap := [7 \<mapsto> cmd_cmpl_evt 0xFC28 0]\<rparr>) 7 = Some (cmd_cmpl_evt 0xFC28 0) \<and>
   6 \<le> length (body (cmd_cmpl_evt 0xFC28 0)) \<and>
   map_sum id trace (hw_mrvl_sco_config_cb (Some 7) (ready\<lparr>heap := [7 \<mapsto> cmd_cmpl_evt 0xFC28 0]\<rparr>)) =
     Inr [Dealloc 7, Alloc 13 (Some 100),
          Xmit 0xFC29 100
            \<lparr>event = 0x2000, len = 5, offset = 0, layer_specific = 0,
             body = [0x29, 0xFC, 0x02, 0x03, 0x00]\<rparr>
            Hw_mrvl_sco_config_cb True]"
proof -
  let ?w = "ready\<lparr>heap := [7 \<mapsto> cmd_cmpl_evt 0xFC28 0]\<rparr>"
  have h1: "bt_vendor_cbacks ?w = Some willing_host" by (simp add: ready_def)
  have h2: "globals_ok ?w" by (simp add: globals_ok_def ready_def at_load_def)
  have h3: "heap ?w 7 = Some (cmd_cmpl_evt 0xFC28 0)" by simp
  have h4: "6 \<le> length (body (cmd_cmpl_evt 0xFC28 0))" by (simp add: cmd_cmpl_evt_def)
  from event_buffer_freed_once [OF h1 h2 h3 h4] obtain w' evs where
    r: "hw_mrvl_sco_config_cb (Some 7) ?w = Inr w'" and "frees 7 evs = 1" by blast
  have "map_sum id trace (hw_mrvl_sco_config_cb (Some 7) ?w) =
     Inr [Dealloc 7, Alloc 13 (Some 100),
          Xmit 0xFC29 100
            \<lparr>event = 0x2000, len = 5, offset = 0, layer_specific = 0,
             body = [0x29, 0xFC, 0x02, 0x03, 0x00]\<rparr>
            Hw_mrvl_sco_config_cb True]"
    by (simp add: hw_mrvl_sco_config_cb_def ready_def at_load_def willing_host_def
        build_cmd_buf_def opcode_defs size_defs call_defs HCI_CMD_PREAMBLE_SIZE_def
        UINT16_TO_STREAM_def parse_evt_buf_def cmd_cmpl_evt_def STREAM_TO_UINT16_def
        HCI_EVT_CMD_CMPL_OPCODE_def)
  with h1 h2 h3 h4 r show ?thesis by simp
qed

text \<open>
  C6, as it is stated, fails where no callback table is registered:
  \<open>hw_mrvl_config_start_cb\<close> then skips the release (\<open>if (bt_vendor_cbacks)\<close>) and
  returns the state it was given: nothing in the log, the event buffer still allocated.
\<close>

theorem event_buffer_leak_counterexample:
  "hw_mrvl_config_start_cb (Some 7) (at_load\<lparr>heap := [7 \<mapsto> cmd_cmpl_evt 0xFC22 0]\<rparr>) =
     Inr (at_load\<lparr>heap := [7 \<mapsto> cmd_cmpl_evt 0xFC22 0]\<rparr>) \<and>
   frees 7 (trace (at_load\<lparr>heap := [7 \<mapsto> cmd_cmpl_evt 0xFC22 0]\<rparr>)) = 0 \<and>
   heap (at_load\<lparr>heap := [7 \<mapsto> cmd_cmpl_evt 0xFC22 0]\<rparr>) 7 = Some (cmd_cmpl_evt 0xFC22 0)"
  by (simp add: hw_mrvl_config_start_cb_def at_load_def parse_evt_buf_def cmd_cmpl_evt_def
      STREAM_TO_UINT16_def HCI_EVT_CMD_CMPL_OPCODE_def HCI_CMD_MARVELL_WRITE_BD_ADDRESS_def)

text \<open>
  C7, as the code has it. With a callback table registered, every invocation of the two
  entry points and of the two completion callbacks (on an event buffer of at least six
  bytes) returns, and either has one command accepted by the transport and reports
  nothing, or has no command accepted and calls the result callback of its chain once.
\<close>

theorem every_call_has_one_outcome:
  assumes "bt_vendor_cbacks w = Some cb" and "globals_ok w"
  shows "(\<exists>w' evs. hw_mrvl_config_start w = Inr w' \<and> trace w' = trace w @ evs \<and>
            one_outcome Fwcfg evs) \<and>
         (\<exists>w' evs. hw_mrvl_sco_config w = Inr w' \<and> trace w' = trace w @ evs \<and>
            one_outcome Scocfg evs) \<and>
         (\<forall>p e. heap w p = Some e \<and> 6 \<le> length (body e) \<longrightarrow>
            (\<exists>w' evs. hw_mrvl_config_start_cb (Some p) w = Inr w' \<and> trace w' = trace w @ evs \<and>
               one_outcome Fwcfg evs) \<and>
            (\<exists>w' evs. hw_mrvl_sco_config_cb (Some p) w = Inr w' \<and> trace w' = trace w @ evs \<and>
               one_outcome Scocfg evs))"
proof (intro conjI allI impI)
  from config_start_shape [OF assms] obtain w' m where
    r: "hw_mrvl_config_start w = Inr w'" and
    s: "trace w' = trace w @ [Alloc m None, Fwcfg BT_VND_OP_RESULT_FAIL] \<or>
      (\<exists>q b. body b = UINT16_TO_STREAM HCI_CMD_MARVELL_WRITE_BD_ADDRESS @ [WRITE_BD_ADDRESS_SIZE] @
                 take 2 (write_bd_address w) @ rev (vnd_local_bd_addr w) \<and>
         (trace w' = trace w @ [Alloc m (Some q),
            Xmit HCI_CMD_MARVELL_WRITE_BD_ADDRESS q b Hw_mrvl_config_start_cb True] \<or>
          trace w' = trace w @ [Alloc m (Some q),
            Xmit HCI_CMD_MARVELL_WRITE_BD_ADDRESS q b Hw_mrvl_config_start_cb False,
            Dealloc q, Fwcfg BT_VND_OP_RESULT_FAIL]))"
    by blast
  from s show "\<exists>w' evs. hw_mrvl_config_start w = Inr w' \<and> trace w' = trace w @ evs \<and>
            one_outcome Fwcfg evs"
    unfolding r one_outcome_def by (elim disjE exE conjE) auto
next
  from sco_config_shape [OF assms] obtain w' m where
    r: "hw_mrvl_sco_config w = Inr w'" and
    s: "trace w' = trace w @ [Alloc m None, Scocfg BT_VND_OP_RESULT_FAIL] \<or>
      (\<exists>q b. trace w' = trace w @ [Alloc m (Some q),
           Xmit HCI_CMD_MARVELL_WRITE_PCM_SETTINGS q b Hw_mrvl_sco_config_cb True]) \<or>
      (\<exists>q b. trace w' = trace w @ [Alloc m (Some q),
           Xmit HCI_CMD_MARVELL_WRITE_PCM_SETTINGS q b Hw_mrvl_sco_config_cb False,
           Dealloc q, Scocfg BT_VND_OP_RESULT_FAIL])"
    by blast
  from s show "\<exists>w' evs. hw_mrvl_sco_config w = Inr w' \<and> trace w' = trace w @ evs \<and>
            one_outcome Scocfg evs"
    unfolding r one_outcome_def by (elim disjE exE conjE) auto
next
  fix p e
  assume "heap w p = Some e \<and> 6 \<le> length (body e)"
  then have e: "heap w p = Some e" and l: "6 \<le> length (body e)" by simp_all
  from parse_evt_buf_ok [OF l] obtain ev where
    ev: "parse_evt_buf e \<lparr>cmd = 0, cmd_ret_param = 0\<rparr> = Inr ev" by blast
  show "\<exists>w' evs. hw_mrvl_config_start_cb (Some p) w = Inr w' \<and> trace w' = trace w @ evs \<and>
               one_outcome Fwcfg evs"
    unfolding config_start_cb_eq [OF e ev] one_outcome_def
    by (simp add: assms(1) call_fwcfg_cb_def call_dealloc_def)
next
  fix p e
  assume "heap w p = Some e \<and> 6 \<le> length (body e)"
  then have e: "heap w p = Some e" and l: "6 \<le> length (body e)" by simp_all
  from parse_evt_buf_ok [OF l] obtain ev where
    ev: "parse_evt_buf e \<lparr>cmd = 0, cmd_ret_param = 0\<rparr> = Inr ev" by blast
  from sco_config_cb_shape [OF assms e ev] obtain w' where
    r: "hw_mrvl_sco_config_cb (Some p) w = Inr w'" and
    s: "if cmd ev = HCI_CMD_MARVELL_SET_SCO_DATA_PATH
      then trace w' = trace w @ [Dealloc p, Scocfg BT_VND_OP_RESULT_SUCCESS]
      else if cmd ev = HCI_CMD_MARVELL_WRITE_PCM_SETTINGS \<or>
              cmd ev = HCI_CMD_MARVELL_WRITE_PCM_SYNC_SETTINGS \<or>
              cmd ev = HCI_CMD_MARVELL_WRITE_PCM_LINK_SETTINGS
      then \<exists>m. trace w' = trace w @ [Dealloc p, Alloc m None, Scocfg BT_VND_OP_RESULT_FAIL] \<or>
        (\<exists>q b. trace w' = trace w @ [Dealloc p, Alloc m (Some q),
             Xmit (sco_next (cmd ev)) q b Hw_mrvl_sco_config_cb True]) \<or>
        (\<exists>q b. trace w' = trace w @ [Dealloc p, Alloc m (Some q),
             Xmit (sco_next (cmd ev)) q b Hw_mrvl_sco_config_cb False,
             Dealloc q, Scocfg BT_VND_OP_RESULT_FAIL])
      else trace w' = trace w @ [Dealloc p, Scocfg BT_VND_OP_RESULT_FAIL]"
    by blast
  from s show "\<exists>w' evs. hw_mrvl_sco_config_cb (Some p) w = Inr w' \<and> trace w' = trace w @ evs \<and>
               one_outcome Scocfg evs"
    unfolding r one_outcome_def by (auto split: if_splits)
qed

theorem every_call_has_one_outcome_witness:
  "bt_vendor_cbacks (ready\<lparr>heap := [7 \<mapsto> cmd_cmpl_evt 0xFC1D 0]\<rparr>) = Some willing_host \<and>
   globals_ok (ready\<lparr>heap := [7 \<mapsto> cmd_cmpl_evt 0xFC1D 0]\<rparr>) \<and>
   heap (ready\<lparr>heap := [7 \<mapsto> cmd_cmpl_evt 0xFC1D 0]\<rparr>) 7 = Some (cmd_cmpl_evt 0xFC1D 0) \<and>
   6 \<le> length (body (cmd_cmpl_evt 0xFC1D 0)) \<and>
   map_sum id trace (hw_mrvl_sco_config_cb (Some 7) (ready\<lparr>heap := [7 \<mapsto> cmd_cmpl_evt 0xFC1D 0]\<rparr>)) =
     Inr [Dealloc 7, Scocfg BT_VND_OP_RESULT_SUCCESS] \<and>
   map_sum id trace (hw_mrvl_config_start_cb (Some 7) (ready\<lparr>heap := [7 \<mapsto> cmd_cmpl_evt 0xFC1D 0]\<rparr>)) =
     Inr [Dealloc 7, Fwcfg BT_VND_OP_RESULT_FAIL]"
proof -
  let ?w = "ready\<lparr>heap := [7 \<mapsto> cmd_cmpl_evt 0xFC1D 0]\<rparr>"
  have h1: "bt_vendor_cbacks ?w = Some willing_host" by (simp add: ready_def)
  have h2: "globals_ok ?w" by (simp add: globals_ok_def ready_def at_load_def)
  have h3: "heap ?w 7 = Some (cmd_cmpl_evt 0xFC1D 0)" by simp
  have h4: "6 \<le> length (body (cmd_cmpl_evt 0xFC1D 0))" by (simp add: cmd_cmpl_evt_def)
  from every_call_has_one_outcome [OF h1 h2] h3 h4 obtain w' evs where
    r: "hw_mrvl_sco_config_cb (Some 7) ?w = Inr w'" and "one_outcome Scocfg evs" by blast
  have "map_sum id trace (hw_mrvl_sco_config_cb (Some 7) ?w) =
     Inr [Dealloc 7, Scocfg BT_VND_OP_RESULT_SUCCESS]"
    by (simp add: hw_mrvl_sco_config_cb_def ready_def at_load_def willing_host_def
        opcode_defs call_defs parse_evt_buf_def cmd_cmpl_evt_def STREAM_TO_UINT16_def
        HCI_EVT_CMD_CMPL_OPCODE_def)
  moreover have "map_sum id trace (hw_mrvl_config_start_cb (Some 7) ?w) =
     Inr [Dealloc 7, Fwcfg BT_VND_OP_RESULT_FAIL]"
    by (simp add: hw_mrvl_config_start_cb_def ready_def at_load_def willing_host_def
        opcode_defs call_defs parse_evt_buf_def cmd_cmpl_evt_def STREAM_TO_UINT16_def
        HCI_EVT_CMD_CMPL_OPCODE_def)
  ultimately show ?thesis using h1 h2 h3 h4 r by simp
qed

text \<open>
  C7, as it is stated, fails where no callback table is registered:
  \<open>hw_mrvl_config_start_cb\<close>, called with the completion event of a command that is
  not write-device-address, returns without a send and without a call of \<open>fwcfg_cb\<close>.
\<close>

theorem silent_return_counterexample:
  "map_sum id (sent \<circ> trace)
     (hw_mrvl_config_start_cb (Some 7) (at_load\<lparr>heap := [7 \<mapsto> cmd_cmpl_evt 0xFC07 0]\<rparr>)) =
     Inr [] \<and>
   map_sum id (reported \<circ> trace)
     (hw_mrvl_config_start_cb (Some 7) (at_load\<lparr>heap := [7 \<mapsto> cmd_cmpl_evt 0xFC07 0]\<rparr>)) =
     Inr []"
  by (simp add: hw_mrvl_config_start_cb_def at_load_def parse_evt_buf_def cmd_cmpl_evt_def
      STREAM_TO_UINT16_def HCI_EVT_CMD_CMPL_OPCODE_def HCI_CMD_MARVELL_WRITE_BD_ADDRESS_def)

text \<open>
  C5, as the code has it. With a callback table registered, a completion event whose
  opcode is not 0xFC22 makes \<open>hw_mrvl_config_start_cb\<close> release the event buffer and
  call \<open>fwcfg_cb\<close> once, with FAIL; a completion event whose opcode is none of the four
  opcodes of the SCO chain makes \<open>hw_mrvl_sco_config_cb\<close> release the event buffer and
  call \<open>scocfg_cb\<close> once, with FAIL. Neither allocates or sends anything.
\<close>

theorem unexpected_opcode_fails:
  assumes "bt_vendor_cbacks w = Some cb"
    and "heap w p = Some e" and "completed e = Some c"
  shows "(c \<noteq> HCI_CMD_MARVELL_WRITE_BD_ADDRESS \<longrightarrow>
            (\<exists>w'. hw_mrvl_config_start_cb (Some p) w = Inr w' \<and>
               trace w' = trace w @ [Dealloc p, Fwcfg BT_VND_OP_RESULT_FAIL])) \<and>
         (c \<notin> {HCI_CMD_MARVELL_WRITE_PCM_SETTINGS, HCI_CMD_MARVELL_WRITE_PCM_SYNC_SETTINGS,
                HCI_CMD_MARVELL_WRITE_PCM_LINK_SETTINGS, HCI_CMD_MARVELL_SET_SCO_DATA_PATH} \<longrightarrow>
            (\<exists>w'. hw_mrvl_sco_config_cb (Some p) w = Inr w' \<and>
               trace w' = trace w @ [Dealloc p, Scocfg BT_VND_OP_RESULT_FAIL]))"
proof -
  from completed_SomeD [OF assms(3)] obtain ev where
    ev: "parse_evt_buf e \<lparr>cmd = 0, cmd_ret_param = 0\<rparr> = Inr ev" and c: "cmd ev = c" by blast
  have fw: "c \<noteq> HCI_CMD_MARVELL_WRITE_BD_ADDRESS \<longrightarrow>
            (\<exists>w'. hw_mrvl_config_start_cb (Some p) w = Inr w' \<and>
               trace w' = trace w @ [Dealloc p, Fwcfg BT_VND_OP_RESULT_FAIL])"
    unfolding config_start_cb_eq [OF assms(2) ev] c
    by (simp add: assms(1) call_fwcfg_cb_def call_dealloc_def)
  have sco: "c \<notin> {HCI_CMD_MARVELL_WRITE_PCM_SETTINGS, HCI_CMD_MARVELL_WRITE_PCM_SYNC_SETTINGS,
                HCI_CMD_MARVELL_WRITE_PCM_LINK_SETTINGS, HCI_CMD_MARVELL_SET_SCO_DATA_PATH} \<longrightarrow>
            (\<exists>w'. hw_mrvl_sco_config_cb (Some p) w = Inr w' \<and>
               trace w' = trace w @ [Dealloc p, Scocfg BT_VND_OP_RESULT_FAIL])"
    using assms(1,2) ev c
    by (simp add: hw_mrvl_sco_config_cb_def Let_def call_dealloc_def call_scocfg_cb_def)
  from fw sco show ?thesis by (rule conjI)
qed

theorem unexpected_opcode_fails_witness:
  "bt_vendor_cbacks (ready\<lparr>heap := [7 \<mapsto> cmd_cmpl_evt 0x0C03 0]\<rparr>) = Some willing_host \<and>
   heap (ready\<lparr>heap := [7 \<mapsto> cmd_cmpl_evt 0x0C03 0]\<rparr>) 7 = Some (cmd_cmpl_evt 0x0C03 0) \<and>
   completed (cmd_cmpl_evt 0x0C03 0) = Some 0x0C03 \<and>
   map_sum id trace
     (hw_mrvl_config_start_cb (Some 7) (ready\<lparr>heap := [7 \<mapsto> cmd_cmpl_evt 0x0C03 0]\<rparr>)) =
     Inr [Dealloc 7, Fwcfg BT_VND_OP_RESULT_FAIL] \<and>
   map_sum id trace
     (hw_mrvl_sco_config_cb (Some 7) (ready\<lparr>heap := [7 \<mapsto> cmd_cmpl_evt 0x0C03 0]\<rparr>)) =
     Inr [Dealloc 7, Scocfg BT_VND_OP_RESULT_FAIL]"
proof -
  let ?w = "ready\<lparr>heap := [7 \<mapsto> cmd_cmpl_evt 0x0C03 0]\<rparr>"
  have h1: "bt_vendor_cbacks ?w = Some willing_host" by (simp add: ready_def)
  have h2: "heap ?w 7 = Some (cmd_cmpl_evt 0x0C03 0)" by simp
  have h3: "completed (cmd_cmpl_evt 0x0C03 0) = Some 0x0C03"
    by (simp add: completed_def parse_evt_buf_def cmd_cmpl_evt_def STREAM_TO_UINT16_def
        HCI_EVT_CMD_CMPL_OPCODE_def)
  have n1: "(0x0C03 :: u16) \<noteq> HCI_CMD_MARVELL_WRITE_BD_ADDRESS" by (simp add: opcode_defs)
  have n2: "(0x0C03 :: u16) \<notin> {HCI_CMD_MARVELL_WRITE_PCM_SETTINGS,
      HCI_CMD_MARVELL_WRITE_PCM_SYNC_SETTINGS, HCI_CMD_MARVELL_WRITE_PCM_LINK_SETTINGS,
      HCI_CMD_MARVELL_SET_SCO_DATA_PATH}" by (simp add: opcode_defs)
  have tr: "trace ?w = []" by (simp add: ready_def at_load_def)
  from unexpected_opcode_fails [OF h1 h2 h3] n1 n2 obtain u1 u2 where
    "hw_mrvl_config_start_cb (Some 7) ?w = Inr u1"
    "trace u1 = trace ?w @ [Dealloc 7, Fwcfg BT_VND_OP_RESULT_FAIL]"
    "hw_mrvl_sco_config_cb (Some 7) ?w = Inr u2"
    "trace u2 = trace ?w @ [Dealloc 7, Scocfg BT_VND_OP_RESULT_FAIL]"
    by blast
  then show ?thesis using h1 h2 h3 by (simp add: tr)
qed

text \<open>
  C5, as it is stated, fails in two ways. The SCO callback keeps no record of the step
  of the chain: after \<open>hw_mrvl_sco_config\<close> has sent write-PCM-settings (0xFC07), the
  completion event of set-SCO-data-path (0xFC1D), which is not the one awaited, makes it
  report SUCCESS, and the completion event of write-PCM-link-settings (0xFC29) makes it
  send a further command, set-SCO-data-path. And with no callback table registered
  \<open>hw_mrvl_config_start_cb\<close> calls no failure callback for an opcode other than 0xFC22.
\<close>

theorem out_of_step_opcode_counterexample:
  "map_sum id (reported \<circ> trace \<circ> fst) (sco_run [(7, cmd_cmpl_evt 0xFC1D 0)] ready) =
     Inr [Scocfg BT_VND_OP_RESULT_SUCCESS] \<and>
   map_sum id (sent \<circ> trace \<circ> fst) (sco_run [(7, cmd_cmpl_evt 0xFC29 0)] ready) =
     Inr [0xFC07, 0xFC1D] \<and>
   map_sum id (reported \<circ> trace \<circ> fst) (sco_run [(7, cmd_cmpl_evt 0xFC29 0)] ready) =
     Inr [] \<and>
   map_sum id (reported \<circ> trace)
     (hw_mrvl_config_start_cb (Some 7) (at_load\<lparr>heap := [7 \<mapsto> cmd_cmpl_evt 0xFC1D 0]\<rparr>)) =
     Inr []"
proof -
  have s: "hw_mrvl_sco_config ready =
      Inr (ready\<lparr>host := 1,
             heap := [100 \<mapsto> \<lparr>event = 0x2000, len = 4, offset = 0, layer_specific = 0,
                                  body = [0x07, 0xFC, 0x01, 0x02]\<rparr>],
             trace := [Alloc 12 (Some 100),
                       Xmit 0xFC07 100
                         \<lparr>event = 0x2000, len = 4, offset = 0, layer_specific = 0,
                          body = [0x07, 0xFC, 0x01, 0x02]\<rparr>
                         Hw_mrvl_sco_config_cb True]\<rparr>)"
  proof -
    have lo: "(0xFC07 :: u8) = 0x07" by simp
    show ?thesis
      by (simp add: hw_mrvl_sco_config_def ready_def at_load_def willing_host_def
          build_cmd_buf_def opcode_defs size_defs call_defs HCI_CMD_PREAMBLE_SIZE_def
          UINT16_TO_STREAM_def lo)
  qed
  have a: "map_sum id (reported \<circ> trace \<circ> fst) (sco_run [(7, cmd_cmpl_evt 0xFC1D 0)] ready) =
     Inr [Scocfg BT_VND_OP_RESULT_SUCCESS]"
    unfolding sco_run_def s
    by (simp add: pending_def deliver_def hw_mrvl_sco_config_cb_def ready_def at_load_def
        willing_host_def opcode_defs call_defs parse_evt_buf_def cmd_cmpl_evt_def
        STREAM_TO_UINT16_def HCI_EVT_CMD_CMPL_OPCODE_def)
  have b: "map_sum id (trace \<circ> fst) (sco_run [(7, cmd_cmpl_evt 0xFC29 0)] ready) =
     Inr [Alloc 12 (Some 100),
          Xmit 0xFC07 100
            \<lparr>event = 0x2000, len = 4, offset = 0, layer_specific = 0,
             body = [0x07, 0xFC, 0x01, 0x02]\<rparr>
            Hw_mrvl_sco_config_cb True,
          Dealloc 7, Alloc 12 (Some 101),
          Xmit 0xFC1D 101
            \<lparr>event = 0x2000, len = 4, offset = 0, layer_specific = 0,
             body = [0x1D, 0xFC, 0x01, 0x01]\<rparr>
            Hw_mrvl_sco_config_cb True]"
    unfolding sco_run_def s
    by (simp add: pending_def deliver_def hw_mrvl_sco_config_cb_def ready_def at_load_def
        willing_host_def build_cmd_buf_def opcode_defs size_defs call_defs
        HCI_CMD_PREAMBLE_SIZE_def UINT16_TO_STREAM_def parse_evt_buf_def cmd_cmpl_evt_def
        STREAM_TO_UINT16_def HCI_EVT_CMD_CMPL_OPCODE_def)
  have c: "map_sum id (reported \<circ> trace)
     (hw_mrvl_config_start_cb (Some 7) (at_load\<lparr>heap := [7 \<mapsto> cmd_cmpl_evt 0xFC1D 0]\<rparr>)) =
     Inr []"
    by (simp add: hw_mrvl_config_start_cb_def at_load_def parse_evt_buf_def cmd_cmpl_evt_def
        STREAM_TO_UINT16_def HCI_EVT_CMD_CMPL_OPCODE_def HCI_CMD_MARVELL_WRITE_BD_ADDRESS_def)
  from b have b1: "map_sum id (sent \<circ> trace \<circ> fst) (sco_run [(7, cmd_cmpl_evt 0xFC29 0)] ready) =
     Inr [0xFC07, 0xFC1D]"
    by (cases "sco_run [(7, cmd_cmpl_evt 0xFC29 0)] ready") auto
  from b have b2: "map_sum id (reported \<circ> trace \<circ> fst) (sco_run [(7, cmd_cmpl_evt 0xFC29 0)] ready) =
     Inr []"
    by (cases "sco_run [(7, cmd_cmpl_evt 0xFC29 0)] ready") auto
  from a b1 b2 c show ?thesis by simp
qed

section \<open>The SCO chain\<close>

subsection \<open>Steps of the chain under the transport\<close>

lemma pending_accepted [simp]: "pending (tr @ [x, Xmit c q b k True]) = Some k"
  by (simp add: pending_def)

lemma pending_accepted3 [simp]: "pending (tr @ [x, y, Xmit c q b k True]) = Some k"
  by (simp add: pending_def)

lemma pending_reported [simp]: "pending (tr @ [x, Scocfg r]) = None"
  by (simp add: pending_def)

lemma pending_reported3 [simp]: "pending (tr @ [x, y, Scocfg r]) = None"
  by (simp add: pending_def)

lemma pending_reported5 [simp]: "pending (tr @ [x, y, z, u, Scocfg r]) = None"
  by (simp add: pending_def)

lemma pending_reported4 [simp]: "pending (tr @ [x, y, z, Scocfg r]) = None"
  by (simp add: pending_def)

lemma transport_all_consumed:
  assumes "transport ((p, e) # evts) w = Inr (w', [])"
  shows "\<exists>k w1. pending (trace w) = Some k \<and> deliver k p e w = Inr w1 \<and>
     transport evts w1 = Inr (w', [])"
  using assms by (auto split: option.splits sum.splits)

lemma transport_waiting:
  assumes "transport (x # evts) w = Inr (w', [])"
  shows "pending (trace w) \<noteq> None"
  using assms by (cases x) (auto split: option.splits)

lemma sco_chain_step:
  assumes cb: "bt_vendor_cbacks w = Some cb" and ok: "globals_ok w"
    and pend: "pending (trace w) = Some Hw_mrvl_sco_config_cb"
    and t: "transport ((p, e) # x # evts) w = Inr (w', [])"
    and c: "completed e = Some c"
    and c3: "c = HCI_CMD_MARVELL_WRITE_PCM_SETTINGS \<or>
             c = HCI_CMD_MARVELL_WRITE_PCM_SYNC_SETTINGS \<or>
             c = HCI_CMD_MARVELL_WRITE_PCM_LINK_SETTINGS"
  shows "\<exists>w1 m q b. transport (x # evts) w1 = Inr (w', []) \<and>
     bt_vendor_cbacks w1 = Some cb \<and> globals_ok w1 \<and>
     pending (trace w1) = Some Hw_mrvl_sco_config_cb \<and>
     trace w1 = trace w @ [Dealloc p, Alloc m (Some q),
                           Xmit (sco_next c) q b Hw_mrvl_sco_config_cb True]"
proof -
  let ?w = "w\<lparr>heap := (heap w)(p \<mapsto> e)\<rparr>"
  from transport_all_consumed [OF t] pend obtain w1 where
    d: "deliver Hw_mrvl_sco_config_cb p e w = Inr w1" and
    t1: "transport (x # evts) w1 = Inr (w', [])" by auto
  from completed_SomeD [OF c] obtain ev where
    ev: "parse_evt_buf e \<lparr>cmd = 0, cmd_ret_param = 0\<rparr> = Inr ev" and cev: "cmd ev = c" by blast
  have cb': "bt_vendor_cbacks ?w = Some cb" using cb by simp
  have ok': "globals_ok ?w" using ok by (simp add: globals_ok_def)
  have e': "heap ?w p = Some e" by simp
  have nd: "c \<noteq> HCI_CMD_MARVELL_SET_SCO_DATA_PATH" using c3 by (auto simp: opcode_defs)
  from sco_config_cb_shape [OF cb' ok' e' ev] d obtain m where
    g: "same_globals ?w w1" and
    s: "trace w1 = trace w @ [Dealloc p, Alloc m None, Scocfg BT_VND_OP_RESULT_FAIL] \<or>
        (\<exists>q b. trace w1 = trace w @ [Dealloc p, Alloc m (Some q),
             Xmit (sco_next c) q b Hw_mrvl_sco_config_cb True]) \<or>
        (\<exists>q b. trace w1 = trace w @ [Dealloc p, Alloc m (Some q),
             Xmit (sco_next c) q b Hw_mrvl_sco_config_cb False,
             Dealloc q, Scocfg BT_VND_OP_RESULT_FAIL])"
    using c3 nd by (auto simp: deliver_def cev)
  have w: "pending (trace w1) \<noteq> None" by (rule transport_waiting [OF t1])
  from s w obtain q b where
    tr: "trace w1 = trace w @ [Dealloc p, Alloc m (Some q),
             Xmit (sco_next c) q b Hw_mrvl_sco_config_cb True]"
    by auto
  have "bt_vendor_cbacks w1 = Some cb" using g cb by (simp add: same_globals_def)
  moreover have "globals_ok w1" by (rule globals_ok_same [OF g ok'])
  moreover have "pending (trace w1) = Some Hw_mrvl_sco_config_cb" by (simp add: tr)
  ultimately show ?thesis using t1 tr by blast
qed

lemma sco_chain_last:
  assumes cb: "bt_vendor_cbacks w = Some cb" and ok: "globals_ok w"
    and pend: "pending (trace w) = Some Hw_mrvl_sco_config_cb"
    and t: "transport [(p, e)] w = Inr (w', [])"
    and c: "completed e = Some HCI_CMD_MARVELL_SET_SCO_DATA_PATH"
  shows "trace w' = trace w @ [Dealloc p, Scocfg BT_VND_OP_RESULT_SUCCESS]"
proof -
  let ?w = "w\<lparr>heap := (heap w)(p \<mapsto> e)\<rparr>"
  from transport_all_consumed [OF t] pend have
    d: "deliver Hw_mrvl_sco_config_cb p e w = Inr w'" by auto
  from completed_SomeD [OF c] obtain ev where
    ev: "parse_evt_buf e \<lparr>cmd = 0, cmd_ret_param = 0\<rparr> = Inr ev" and
    cev: "cmd ev = HCI_CMD_MARVELL_SET_SCO_DATA_PATH" by blast
  have cb': "bt_vendor_cbacks ?w = Some cb" using cb by simp
  have ok': "globals_ok ?w" using ok by (simp add: globals_ok_def)
  have e': "heap ?w p = Some e" by simp
  from sco_config_cb_shape [OF cb' ok' e' ev] d show ?thesis
    by (auto simp: deliver_def cev)
qed

text \<open>
  C1. If the SCO chain is started by \<open>hw_mrvl_sco_config\<close> and the transport then
  delivers four completion events, with the opcodes 0xFC07, 0xFC28, 0xFC29 and 0xFC1D in
  this order, each to the callback that is waiting for it, then over the whole run the
  commands handed to the transport are the four with these opcodes in this order, all of
  them accepted, and the result callbacks called are \<open>scocfg_cb\<close> once, with SUCCESS.
\<close>

theorem sco_chain_succeeds:
  assumes "globals_ok w0"
    and "map (completed \<circ> snd) evts =
           [Some HCI_CMD_MARVELL_WRITE_PCM_SETTINGS, Some HCI_CMD_MARVELL_WRITE_PCM_SYNC_SETTINGS,
            Some HCI_CMD_MARVELL_WRITE_PCM_LINK_SETTINGS, Some HCI_CMD_MARVELL_SET_SCO_DATA_PATH]"
    and "sco_run evts w0 = Inr (w5, [])"
  shows "\<exists>evs. trace w5 = trace w0 @ evs \<and>
     sent evs = [0xFC07, 0xFC28, 0xFC29, 0xFC1D] \<and>
     accepted evs = [0xFC07, 0xFC28, 0xFC29, 0xFC1D] \<and>
     reported evs = [Scocfg BT_VND_OP_RESULT_SUCCESS]"
proof -
  from assms(2) obtain p1 e1 p2 e2 p3 e3 p4 e4 where
    evts: "evts = [(p1, e1), (p2, e2), (p3, e3), (p4, e4)]" and
    c1: "completed e1 = Some HCI_CMD_MARVELL_WRITE_PCM_SETTINGS" and
    c2: "completed e2 = Some HCI_CMD_MARVELL_WRITE_PCM_SYNC_SETTINGS" and
    c3: "completed e3 = Some HCI_CMD_MARVELL_WRITE_PCM_LINK_SETTINGS" and
    c4: "completed e4 = Some HCI_CMD_MARVELL_SET_SCO_DATA_PATH"
    by (auto simp: map_eq_Cons_conv)
  from assms(3) obtain w1 where
    s0: "hw_mrvl_sco_config w0 = Inr w1" and
    t1: "transport [(p1, e1), (p2, e2), (p3, e3), (p4, e4)] w1 = Inr (w5, [])"
    by (auto simp: sco_run_def evts split: sum.splits)
  from s0 obtain cb where cb0: "bt_vendor_cbacks w0 = Some cb"
    by (cases "bt_vendor_cbacks w0") (auto simp: hw_mrvl_sco_config_def)
  have w1: "pending (trace w1) \<noteq> None" by (rule transport_waiting [OF t1])
  from sco_config_shape [OF cb0 assms(1)] s0 w1 obtain m0 q0 b0 where
    g1: "same_globals w0 w1" and
    tr1: "trace w1 = trace w0 @ [Alloc m0 (Some q0),
           Xmit HCI_CMD_MARVELL_WRITE_PCM_SETTINGS q0 b0 Hw_mrvl_sco_config_cb True]"
    by auto
  have cb1: "bt_vendor_cbacks w1 = Some cb" using g1 cb0 by (simp add: same_globals_def)
  have ok1: "globals_ok w1" by (rule globals_ok_same [OF g1 assms(1)])
  have pd1: "pending (trace w1) = Some Hw_mrvl_sco_config_cb" by (simp add: tr1)
  from sco_chain_step [OF cb1 ok1 pd1 t1 c1] obtain w2 m1 q1 b1 where
    t2: "transport [(p2, e2), (p3, e3), (p4, e4)] w2 = Inr (w5, [])" and
    cb2: "bt_vendor_cbacks w2 = Some cb" and ok2: "globals_ok w2" and
    pd2: "pending (trace w2) = Some Hw_mrvl_sco_config_cb" and
    tr2: "trace w2 = trace w1 @ [Dealloc p1, Alloc m1 (Some q1),
           Xmit (sco_next HCI_CMD_MARVELL_WRITE_PCM_SETTINGS) q1 b1 Hw_mrvl_sco_config_cb True]"
    by auto
  from sco_chain_step [OF cb2 ok2 pd2 t2 c2] obtain w3 m2 q2 b2 where
    t3: "transport [(p3, e3), (p4, e4)] w3 = Inr (w5, [])" and
    cb3: "bt_vendor_cbacks w3 = Some cb" and ok3: "globals_ok w3" and
    pd3: "pending (trace w3) = Some Hw_mrvl_sco_config_cb" and
    tr3: "trace w3 = trace w2 @ [Dealloc p2, Alloc m2 (Some q2),
           Xmit (sco_next HCI_CMD_MARVELL_WRITE_PCM_SYNC_SETTINGS) q2 b2 Hw_mrvl_sco_config_cb True]"
    by auto
  from sco_chain_step [OF cb3 ok3 pd3 t3 c3] obtain w4 m3 q3 b3 where
    t4: "transport [(p4, e4)] w4 = Inr (w5, [])" and
    cb4: "bt_vendor_cbacks w4 = Some cb" and ok4: "globals_ok w4" and
    pd4: "pending (trace w4) = Some Hw_mrvl_sco_config_cb" and
    tr4: "trace w4 = trace w3 @ [Dealloc p3, Alloc m3 (Some q3),
           Xmit (sco_next HCI_CMD_MARVELL_WRITE_PCM_LINK_SETTINGS) q3 b3 Hw_mrvl_sco_config_cb True]"
    by auto
  have tr5: "trace w5 = trace w4 @ [Dealloc p4, Scocfg BT_VND_OP_RESULT_SUCCESS]"
    by (rule sco_chain_last [OF cb4 ok4 pd4 t4 c4])
  let ?evs = "[Alloc m0 (Some q0),
       Xmit HCI_CMD_MARVELL_WRITE_PCM_SETTINGS q0 b0 Hw_mrvl_sco_config_cb True,
       Dealloc p1, Alloc m1 (Some q1),
       Xmit (sco_next HCI_CMD_MARVELL_WRITE_PCM_SETTINGS) q1 b1 Hw_mrvl_sco_config_cb True,
       Dealloc p2, Alloc m2 (Some q2),
       Xmit (sco_next HCI_CMD_MARVELL_WRITE_PCM_SYNC_SETTINGS) q2 b2 Hw_mrvl_sco_config_cb True,
       Dealloc p3, Alloc m3 (Some q3),
       Xmit (sco_next HCI_CMD_MARVELL_WRITE_PCM_LINK_SETTINGS) q3 b3 Hw_mrvl_sco_config_cb True,
       Dealloc p4, Scocfg BT_VND_OP_RESULT_SUCCESS]"
  have "trace w5 = trace w0 @ ?evs" by (simp add: tr5 tr4 tr3 tr2 tr1)
  moreover have "sent ?evs = [0xFC07, 0xFC28, 0xFC29, 0xFC1D]"
    by (simp add: sco_next_def opcode_defs)
  moreover have "accepted ?evs = [0xFC07, 0xFC28, 0xFC29, 0xFC1D]"
    by (simp add: sco_next_def opcode_defs)
  moreover have "reported ?evs = [Scocfg BT_VND_OP_RESULT_SUCCESS]" by simp
  ultimately show ?thesis by blast
qed

theorem sco_chain_succeeds_witness:
  "globals_ok ready \<and>
   map (completed \<circ> snd)
     [(7, cmd_cmpl_evt 0xFC07 0), (8, cmd_cmpl_evt 0xFC28 0),
      (9, cmd_cmpl_evt 0xFC29 0), (10, cmd_cmpl_evt 0xFC1D 0)] =
     [Some HCI_CMD_MARVELL_WRITE_PCM_SETTINGS, Some HCI_CMD_MARVELL_WRITE_PCM_SYNC_SETTINGS,
      Some HCI_CMD_MARVELL_WRITE_PCM_LINK_SETTINGS, Some HCI_CMD_MARVELL_SET_SCO_DATA_PATH] \<and>
   map_sum id snd
     (sco_run [(7, cmd_cmpl_evt 0xFC07 0), (8, cmd_cmpl_evt 0xFC28 0),
               (9, cmd_cmpl_evt 0xFC29 0), (10, cmd_cmpl_evt 0xFC1D 0)] ready) = Inr [] \<and>
   map_sum id (sent \<circ> trace \<circ> fst)
     (sco_run [(7, cmd_cmpl_evt 0xFC07 0), (8, cmd_cmpl_evt 0xFC28 0),
               (9, cmd_cmpl_evt 0xFC29 0), (10, cmd_cmpl_evt 0xFC1D 0)] ready) =
     Inr [0xFC07, 0xFC28, 0xFC29, 0xFC1D] \<and>
   map_sum id (reported \<circ> trace \<circ> fst)
     (sco_run [(7, cmd_cmpl_evt 0xFC07 0), (8, cmd_cmpl_evt 0xFC28 0),
               (9, cmd_cmpl_evt 0xFC29 0), (10, cmd_cmpl_evt 0xFC1D 0)] ready) =
     Inr [Scocfg BT_VND_OP_RESULT_SUCCESS]"
proof -
  let ?evts = "[(7, cmd_cmpl_evt 0xFC07 0), (8, cmd_cmpl_evt 0xFC28 0),
                (9, cmd_cmpl_evt 0xFC29 0), (10, cmd_cmpl_evt 0xFC1D 0)]"
  have h1: "globals_ok ready" by (simp add: globals_ok_def ready_def at_load_def)
  have h2: "map (completed \<circ> snd) ?evts =
     [Some HCI_CMD_MARVELL_WRITE_PCM_SETTINGS, Some HCI_CMD_MARVELL_WRITE_PCM_SYNC_SETTINGS,
      Some HCI_CMD_MARVELL_WRITE_PCM_LINK_SETTINGS, Some HCI_CMD_MARVELL_SET_SCO_DATA_PATH]"
    by (simp add: completed_def parse_evt_buf_def cmd_cmpl_evt_def STREAM_TO_UINT16_def
        HCI_EVT_CMD_CMPL_OPCODE_def opcode_defs)
  have run: "map_sum id snd (sco_run ?evts ready) = Inr []"
    by (simp add: sco_run_def pending_def deliver_def hw_mrvl_sco_config_def
        hw_mrvl_sco_config_cb_def ready_def at_load_def willing_host_def build_cmd_buf_def
        opcode_defs size_defs call_defs HCI_CMD_PREAMBLE_SIZE_def UINT16_TO_STREAM_def
        parse_evt_buf_def cmd_cmpl_evt_def STREAM_TO_UINT16_def HCI_EVT_CMD_CMPL_OPCODE_def)
  then obtain w5 where h3: "sco_run ?evts ready = Inr (w5, [])"
    by (cases "sco_run ?evts ready") auto
  have tr: "trace ready = []" by (simp add: ready_def at_load_def)
  from sco_chain_succeeds [OF h1 h2 h3] obtain evs where
    "trace w5 = trace ready @ evs" "sent evs = [0xFC07, 0xFC28, 0xFC29, 0xFC1D]"
    "reported evs = [Scocfg BT_VND_OP_RESULT_SUCCESS]" by blast
  then show ?thesis using h1 h2 h3 by (simp add: tr)
qed

end
